theory Spec2Isabelle
  imports Main "HOL-Library.Word"
begin

section \<open>Camera capture session of camera\_windows\<close>

text \<open>
  A shallow embedding of \<^verbatim>\<open>camera.cpp\<close>, \<^verbatim>\<open>capture_controller.cpp\<close> and
  \<^verbatim>\<open>preview_handler.cpp\<close>. Objects are records, nullable pointers are options (or a
  boolean where only the presence of a native object matters), and every call into the
  Media Foundation pipeline takes its outcome as an explicit argument. What the C++
  leaves undefined (a call through a null pointer, a read or write past the end of an
  array) and a failing \<^verbatim>\<open>assert\<close> are values of type \<open>fault\<close>, returned
  with \<open>Inl\<close>.
\<close>

subsection \<open>Basic types\<close>

type_synonym u8 = "8 word"
type_synonym u32 = "32 word"
type_synonym hresult = int

datatype fault = NullDereference | AssertionFailed | OutOfBoundsRead | OutOfBoundsWrite

definition FAILED :: "hresult \<Rightarrow> bool" where
  "FAILED hr = (hr < 0)"

definition SUCCEEDED :: "hresult \<Rightarrow> bool" where
  "SUCCEEDED hr = (0 \<le> hr)"

definition S_OK :: hresult where
  "S_OK = 0"

definition E_FAIL :: hresult where
  "E_FAIL = - 2147467259"

text \<open>Sequencing of fallible steps: the first fault ends the run.\<close>

definition and_then :: "fault + 'a \<Rightarrow> ('a \<Rightarrow> fault + 'b) \<Rightarrow> fault + 'b" where
  "and_then r f = (case r of Inl e \<Rightarrow> Inl e | Inr x \<Rightarrow> f x)"

subsection \<open>PreviewHandler (preview\_handler.cpp)\<close>

text \<open>
  Modelled from the spec: the enumeration \<^verbatim>\<open>PreviewState\<close> and the inline queries
  \<^verbatim>\<open>IsInitialized\<close> and \<^verbatim>\<open>IsStarting\<close> are declared in
  \<^verbatim>\<open>preview_handler.h\<close>, which is not part of the sources. The four states named in
  \<^verbatim>\<open>preview_handler.cpp\<close> keep their names; the initial state is the spec's STOPPED.
\<close>

datatype PreviewState =
    PREVIEW_STATE__STOPPED
  | PREVIEW_STATE__STARTING
  | PREVIEW_STATE__RUNNING
  | PREVIEW_STATE__PAUSED
  | PREVIEW_STATE__STOPPING

record PreviewHandler =
  preview_state :: PreviewState
  preview_sink :: bool

definition new_PreviewHandler :: PreviewHandler where
  "new_PreviewHandler = \<lparr>preview_state = PREVIEW_STATE__STOPPED, preview_sink = False\<rparr>"

text \<open>
  Modelled from the spec: \<^verbatim>\<open>IsInitialized\<close> (a preview that did start: running or
  paused) and \<^verbatim>\<open>IsStarting\<close>, both from the missing header.
\<close>

definition IsInitialized :: "PreviewHandler \<Rightarrow> bool" where
  "IsInitialized p =
     (preview_state p = PREVIEW_STATE__RUNNING \<or> preview_state p = PREVIEW_STATE__PAUSED)"

definition IsStarting :: "PreviewHandler \<Rightarrow> bool" where
  "IsStarting p = (preview_state p = PREVIEW_STATE__STARTING)"

text \<open>
  The native calls of \<^verbatim>\<open>InitPreviewSink\<close>, in the order the function makes them. The
  sink pointer is cleared on every failure but the one of \<^verbatim>\<open>AddStream\<close>. The three
  assertions of the function (engine, base media type, sample callback) are those of its
  only callers, \<open>PreviewHandler_StartPreview\<close> and the controller's
  \<open>StartPreview\<close>, where they are checked.
\<close>

record preview_sink_calls =
  hr_GetSink :: hresult
  hr_As :: hresult
  hr_RemoveAllStreams :: hresult
  hr_BuildMediaType :: hresult
  hr_AddStream :: hresult
  hr_SetSampleCallback :: hresult

definition InitPreviewSink :: "preview_sink_calls \<Rightarrow> PreviewHandler \<Rightarrow> PreviewHandler \<times> hresult" where
  "InitPreviewSink env p =
     (if preview_sink p then (p, S_OK)
      else if FAILED (hr_GetSink env) then (p, hr_GetSink env)
      else if FAILED (hr_As env) then (p\<lparr>preview_sink := False\<rparr>, hr_As env)
      else if FAILED (hr_RemoveAllStreams env)
        then (p\<lparr>preview_sink := False\<rparr>, hr_RemoveAllStreams env)
      else if FAILED (hr_BuildMediaType env)
        then (p\<lparr>preview_sink := False\<rparr>, hr_BuildMediaType env)
      else if FAILED (hr_AddStream env) then (p\<lparr>preview_sink := True\<rparr>, hr_AddStream env)
      else if FAILED (hr_SetSampleCallback env)
        then (p\<lparr>preview_sink := False\<rparr>, hr_SetSampleCallback env)
      else (p\<lparr>preview_sink := True\<rparr>, hr_SetSampleCallback env))"

text \<open>
  \<open>hr_start\<close> is the result of the engine's own \<^verbatim>\<open>StartPreview\<close>; the two
  booleans tell whether the engine and the base media type passed in are non-null, which
  the function asserts.
\<close>

definition PreviewHandler_StartPreview ::
  "bool \<Rightarrow> bool \<Rightarrow> preview_sink_calls \<Rightarrow> hresult \<Rightarrow> PreviewHandler
     \<Rightarrow> fault + PreviewHandler \<times> bool" where
  "PreviewHandler_StartPreview engine base_media_type env hr_start p =
     (if \<not> engine then Inl AssertionFailed
      else if \<not> base_media_type then Inl AssertionFailed
      else case InitPreviewSink env p of (p1, hr) \<Rightarrow>
        if FAILED hr then Inr (p1, False)
        else Inr (p1\<lparr>preview_state := PREVIEW_STATE__STARTING\<rparr>, SUCCEEDED hr_start))"

text \<open>\<open>hr_stop\<close> is the result of the engine's own \<^verbatim>\<open>StopPreview\<close>.\<close>

definition PreviewHandler_StopPreview ::
  "hresult \<Rightarrow> PreviewHandler \<Rightarrow> PreviewHandler \<times> bool" where
  "PreviewHandler_StopPreview hr_stop p =
     (if preview_state p = PREVIEW_STATE__STARTING
         \<or> preview_state p = PREVIEW_STATE__RUNNING
         \<or> preview_state p = PREVIEW_STATE__PAUSED
      then (p\<lparr>preview_state := PREVIEW_STATE__STOPPING\<rparr>, SUCCEEDED hr_stop)
      else (p, False))"

definition PreviewHandler_PausePreview :: "PreviewHandler \<Rightarrow> PreviewHandler \<times> bool" where
  "PreviewHandler_PausePreview p =
     (if preview_state p \<noteq> PREVIEW_STATE__RUNNING then (p, False)
      else (p\<lparr>preview_state := PREVIEW_STATE__PAUSED\<rparr>, True))"

definition PreviewHandler_ResumePreview :: "PreviewHandler \<Rightarrow> PreviewHandler \<times> bool" where
  "PreviewHandler_ResumePreview p =
     (if preview_state p \<noteq> PREVIEW_STATE__PAUSED then (p, False)
      else (p\<lparr>preview_state := PREVIEW_STATE__RUNNING\<rparr>, True))"

definition PreviewHandler_OnPreviewStarted :: "PreviewHandler \<Rightarrow> fault + PreviewHandler" where
  "PreviewHandler_OnPreviewStarted p =
     (if preview_state p \<noteq> PREVIEW_STATE__STARTING then Inl AssertionFailed
      else if preview_state p = PREVIEW_STATE__STARTING
        then Inr (p\<lparr>preview_state := PREVIEW_STATE__RUNNING\<rparr>)
      else Inr p)"

subsection \<open>RecordHandler and PhotoHandler\<close>

text \<open>
  Modelled from the spec: \<^verbatim>\<open>record_handler.cpp\<close> and \<^verbatim>\<open>record_handler.h\<close> are
  not part of the sources. The spec gives the handler three states (idle,
  starting/started, stopping), a mode fixed when a recording starts (timed exactly when a
  positive maximal duration was supplied, continuous otherwise), the path of the file,
  and the elapsed microseconds taken from the frame timestamps while it is active.
\<close>

datatype RecordState = RECORD_STATE__IDLE | RECORD_STATE__STARTED | RECORD_STATE__STOPPING

datatype RecordingType = RECORDING_TYPE__NOT_SET | RECORDING_TYPE__CONTINUOUS | RECORDING_TYPE__TIMED

record RecordHandler =
  rh_record_audio :: bool
  recording_state :: RecordState
  recording_type :: RecordingType
  record_path :: string
  max_video_duration_ms :: int
  recording_start_timestamp_us :: "nat option"
  recording_duration_us :: nat

definition new_RecordHandler :: "bool \<Rightarrow> RecordHandler" where
  "new_RecordHandler audio =
     \<lparr>rh_record_audio = audio, recording_state = RECORD_STATE__IDLE,
      recording_type = RECORDING_TYPE__NOT_SET, record_path = [],
      max_video_duration_ms = - 1, recording_start_timestamp_us = None,
      recording_duration_us = 0\<rparr>"

definition CanStart :: "RecordHandler \<Rightarrow> bool" where
  "CanStart r = (recording_state r = RECORD_STATE__IDLE)"

definition CanStop :: "RecordHandler \<Rightarrow> bool" where
  "CanStop r = (recording_state r \<noteq> RECORD_STATE__IDLE)"

definition IsContinuousRecording :: "RecordHandler \<Rightarrow> bool" where
  "IsContinuousRecording r = (recording_type r = RECORDING_TYPE__CONTINUOUS)"

definition IsTimedRecording :: "RecordHandler \<Rightarrow> bool" where
  "IsTimedRecording r = (recording_type r = RECORDING_TYPE__TIMED)"

definition GetRecordPath :: "RecordHandler \<Rightarrow> string" where
  "GetRecordPath r = record_path r"

definition GetRecordedDuration :: "RecordHandler \<Rightarrow> nat" where
  "GetRecordedDuration r = recording_duration_us r"

definition RecordHandler_StartRecord ::
  "string \<Rightarrow> int \<Rightarrow> hresult \<Rightarrow> RecordHandler \<Rightarrow> RecordHandler \<times> bool" where
  "RecordHandler_StartRecord file_path max_duration hr_start r =
     (r\<lparr>recording_state := RECORD_STATE__STARTED,
        recording_type :=
          (if 0 < max_duration then RECORDING_TYPE__TIMED else RECORDING_TYPE__CONTINUOUS),
        record_path := file_path,
        max_video_duration_ms := max_duration,
        recording_start_timestamp_us := None,
        recording_duration_us := 0\<rparr>,
      SUCCEEDED hr_start)"

definition RecordHandler_StopRecord ::
  "hresult \<Rightarrow> RecordHandler \<Rightarrow> RecordHandler \<times> bool" where
  "RecordHandler_StopRecord hr_stop r =
     (if CanStop r then (r\<lparr>recording_state := RECORD_STATE__STOPPING\<rparr>, SUCCEEDED hr_stop)
      else (r, False))"

definition RecordHandler_OnRecordStarted :: "RecordHandler \<Rightarrow> RecordHandler" where
  "RecordHandler_OnRecordStarted r = r\<lparr>recording_state := RECORD_STATE__STARTED\<rparr>"

definition RecordHandler_OnRecordStopped :: "RecordHandler \<Rightarrow> RecordHandler" where
  "RecordHandler_OnRecordStopped r =
     r\<lparr>recording_state := RECORD_STATE__IDLE, recording_type := RECORDING_TYPE__NOT_SET,
       record_path := [], max_video_duration_ms := - 1,
       recording_start_timestamp_us := None, recording_duration_us := 0\<rparr>"

definition UpdateRecordingTime :: "nat \<Rightarrow> RecordHandler \<Rightarrow> RecordHandler" where
  "UpdateRecordingTime timestamp r =
     (if recording_state r = RECORD_STATE__IDLE then r
      else case recording_start_timestamp_us r of
             None \<Rightarrow> r\<lparr>recording_start_timestamp_us := Some timestamp, recording_duration_us := 0\<rparr>
           | Some t0 \<Rightarrow> r\<lparr>recording_duration_us := timestamp - t0\<rparr>)"

definition ShouldStopTimedRecording :: "RecordHandler \<Rightarrow> bool" where
  "ShouldStopTimedRecording r =
     (recording_type r = RECORDING_TYPE__TIMED
      \<and> int (recording_duration_us r) \<ge> max_video_duration_ms r * 1000)"

text \<open>
  Modelled from the spec: \<^verbatim>\<open>photo_handler.cpp\<close> and \<^verbatim>\<open>photo_handler.h\<close> are not
  part of the sources. The spec gives the handler one flag, set by a request and cleared
  when the request completes, and the path of the requested file.
\<close>

record PhotoHandler =
  capturing :: bool
  photo_path :: string

definition new_PhotoHandler :: PhotoHandler where
  "new_PhotoHandler = \<lparr>capturing = False, photo_path = []\<rparr>"

definition IsTakingPhoto :: "PhotoHandler \<Rightarrow> bool" where
  "IsTakingPhoto p = capturing p"

definition GetPhotoPath :: "PhotoHandler \<Rightarrow> string" where
  "GetPhotoPath p = photo_path p"

definition TakePhoto :: "string \<Rightarrow> hresult \<Rightarrow> PhotoHandler \<Rightarrow> PhotoHandler \<times> bool" where
  "TakePhoto file_path hr_take p =
     (p\<lparr>capturing := True, photo_path := file_path\<rparr>, SUCCEEDED hr_take)"

definition OnPhotoTaken :: "PhotoHandler \<Rightarrow> PhotoHandler" where
  "OnPhotoTaken p = p\<lparr>capturing := False\<rparr>"

subsection \<open>CameraImpl (camera.cpp)\<close>

text \<open>
  Modelled from the spec: the enumeration \<^verbatim>\<open>PendingResultType\<close> is declared in
  \<^verbatim>\<open>camera.h\<close>, which is not part of the sources. The constructors are the seven
  kinds that \<^verbatim>\<open>camera.cpp\<close> names, in the order in which the spec lists them; the
  \<^verbatim>\<open>std::map\<close> of pending results is traversed in this order.
\<close>

datatype PendingResultType =
    CREATE_CAMERA
  | INITIALIZE
  | START_RECORD
  | STOP_RECORD
  | TAKE_PICTURE
  | RESUME_PREVIEW
  | PAUSE_PREVIEW

definition all_PendingResultTypes :: "PendingResultType list" where
  "all_PendingResultTypes =
     [CREATE_CAMERA, INITIALIZE, START_RECORD, STOP_RECORD, TAKE_PICTURE, RESUME_PREVIEW,
      PAUSE_PREVIEW]"

text \<open>
  A \<^verbatim>\<open>flutter::MethodResult\<close> is a reply channel of the host bridge, owned through a
  \<^verbatim>\<open>unique_ptr\<close>; the model names it by a number. What the host bridge observes is
  the sequence of replies and channel invocations, kept in \<open>host_bridge\<close>. A number
  converted with \<^verbatim>\<open>(float)\<close> is kept as the integer it was converted from. A reply
  channel in the model is never null, which is what \<^verbatim>\<open>AddPendingResult\<close> asserts
  of its argument; the channel of a camera is named by the camera id that its name ends
  with.
\<close>

type_synonym method_result = nat

datatype EncodableValue =
    EInt int
  | EFloatOf int
  | EString string
  | EMap "(EncodableValue \<times> EncodableValue) list"

datatype bridge_event =
    ResultSuccess method_result "EncodableValue option"
  | ResultError method_result string string
  | InvokeMethod int string EncodableValue

record CameraImpl =
  device_id :: string
  camera_id :: int
  messenger :: bool
  pending_results :: "PendingResultType \<Rightarrow> method_result option"
  host_bridge :: "bridge_event list"

definition kVideoRecordedEvent :: string where
  "kVideoRecordedEvent = ''video_recorded''"

definition kErrorEvent :: string where
  "kErrorEvent = ''error''"

definition reply :: "bridge_event \<Rightarrow> CameraImpl \<Rightarrow> CameraImpl" where
  "reply e cam = cam\<lparr>host_bridge := host_bridge cam @ [e]\<rparr>"

text \<open>The entries of the map, in the order of its keys.\<close>

definition pending_entries ::
  "(PendingResultType \<Rightarrow> method_result option) \<Rightarrow> (PendingResultType \<times> method_result) list" where
  "pending_entries m =
     concat (map (\<lambda>t. case m t of None \<Rightarrow> [] | Some r \<Rightarrow> [(t, r)]) all_PendingResultTypes)"

definition AddPendingResult ::
  "PendingResultType \<Rightarrow> method_result \<Rightarrow> CameraImpl \<Rightarrow> CameraImpl \<times> bool" where
  "AddPendingResult type result cam =
     (case pending_results cam type of
        Some it \<Rightarrow>
          (reply (ResultError result ''Duplicate request'' ''Method handler already called'') cam,
           False)
      | None \<Rightarrow> (cam\<lparr>pending_results := (pending_results cam)(type \<mapsto> result)\<rparr>, True))"

definition GetPendingResultByType ::
  "PendingResultType \<Rightarrow> CameraImpl \<Rightarrow> CameraImpl \<times> method_result option" where
  "GetPendingResultByType type cam =
     (if pending_entries (pending_results cam) = [] then (cam, None)
      else case pending_results cam type of
             None \<Rightarrow> (cam, None)
           | Some result \<Rightarrow>
               (cam\<lparr>pending_results := (pending_results cam)(type := None)\<rparr>, Some result))"

definition HasPendingResultByType :: "PendingResultType \<Rightarrow> CameraImpl \<Rightarrow> bool" where
  "HasPendingResultByType type cam =
     (if pending_entries (pending_results cam) = [] then False
      else case pending_results cam type of None \<Rightarrow> False | Some result \<Rightarrow> True)"

definition SendErrorForPendingResults :: "string \<Rightarrow> string \<Rightarrow> CameraImpl \<Rightarrow> CameraImpl" where
  "SendErrorForPendingResults error_id description cam =
     (foldl (\<lambda>c pending_result. reply (ResultError (snd pending_result) error_id description) c)
        cam (pending_entries (pending_results cam)))
     \<lparr>pending_results := Map.empty\<rparr>"

text \<open>
  The listener callbacks. Each takes the pending result of its kind out of the map and
  answers it; without such a pending result it does nothing.
\<close>

definition resolve ::
  "PendingResultType \<Rightarrow> (method_result \<Rightarrow> bridge_event) \<Rightarrow> CameraImpl \<Rightarrow> CameraImpl" where
  "resolve type answer cam =
     (case GetPendingResultByType type cam of
        (cam1, Some pending_result) \<Rightarrow> reply (answer pending_result) cam1
      | (cam1, None) \<Rightarrow> cam1)"

definition OnCreateCaptureEngineSucceeded :: "int \<Rightarrow> CameraImpl \<Rightarrow> CameraImpl" where
  "OnCreateCaptureEngineSucceeded texture_id cam =
     resolve CREATE_CAMERA
       (\<lambda>r. ResultSuccess r (Some (EMap [(EString ''cameraId'', EInt texture_id)])))
       (cam\<lparr>camera_id := texture_id\<rparr>)"

definition OnCreateCaptureEngineFailed :: "string \<Rightarrow> CameraImpl \<Rightarrow> CameraImpl" where
  "OnCreateCaptureEngineFailed error cam =
     resolve CREATE_CAMERA (\<lambda>r. ResultError r ''camera_error'' error) cam"

definition OnStartPreviewSucceeded :: "int \<Rightarrow> int \<Rightarrow> CameraImpl \<Rightarrow> CameraImpl" where
  "OnStartPreviewSucceeded width height cam =
     resolve INITIALIZE
       (\<lambda>r. ResultSuccess r
              (Some (EMap [(EString ''previewWidth'', EFloatOf width),
                           (EString ''previewHeight'', EFloatOf height)])))
       cam"

definition OnStartPreviewFailed :: "string \<Rightarrow> CameraImpl \<Rightarrow> CameraImpl" where
  "OnStartPreviewFailed error cam =
     resolve INITIALIZE (\<lambda>r. ResultError r ''camera_error'' error) cam"

definition OnResumePreviewSucceeded :: "CameraImpl \<Rightarrow> CameraImpl" where
  "OnResumePreviewSucceeded cam = resolve RESUME_PREVIEW (\<lambda>r. ResultSuccess r None) cam"

definition OnResumePreviewFailed :: "string \<Rightarrow> CameraImpl \<Rightarrow> CameraImpl" where
  "OnResumePreviewFailed error cam =
     resolve RESUME_PREVIEW (\<lambda>r. ResultError r ''camera_error'' error) cam"

definition OnPausePreviewSucceeded :: "CameraImpl \<Rightarrow> CameraImpl" where
  "OnPausePreviewSucceeded cam = resolve PAUSE_PREVIEW (\<lambda>r. ResultSuccess r None) cam"

definition OnPausePreviewFailed :: "string \<Rightarrow> CameraImpl \<Rightarrow> CameraImpl" where
  "OnPausePreviewFailed error cam =
     resolve PAUSE_PREVIEW (\<lambda>r. ResultError r ''camera_error'' error) cam"

definition OnStartRecordSucceeded :: "CameraImpl \<Rightarrow> CameraImpl" where
  "OnStartRecordSucceeded cam = resolve START_RECORD (\<lambda>r. ResultSuccess r None) cam"

definition OnStartRecordFailed :: "string \<Rightarrow> CameraImpl \<Rightarrow> CameraImpl" where
  "OnStartRecordFailed error cam =
     resolve START_RECORD (\<lambda>r. ResultError r ''camera_error'' error) cam"

definition OnStopRecordSucceeded :: "string \<Rightarrow> CameraImpl \<Rightarrow> CameraImpl" where
  "OnStopRecordSucceeded filepath cam =
     resolve STOP_RECORD (\<lambda>r. ResultSuccess r (Some (EString filepath))) cam"

definition OnStopRecordFailed :: "string \<Rightarrow> CameraImpl \<Rightarrow> CameraImpl" where
  "OnStopRecordFailed error cam =
     resolve STOP_RECORD (\<lambda>r. ResultError r ''camera_error'' error) cam"

definition OnTakePictureSucceeded :: "string \<Rightarrow> CameraImpl \<Rightarrow> CameraImpl" where
  "OnTakePictureSucceeded filepath cam =
     resolve TAKE_PICTURE (\<lambda>r. ResultSuccess r (Some (EString filepath))) cam"

definition OnTakePictureFailed :: "string \<Rightarrow> CameraImpl \<Rightarrow> CameraImpl" where
  "OnTakePictureFailed error cam =
     resolve TAKE_PICTURE (\<lambda>r. ResultError r ''camera_error'' error) cam"

definition OnVideoRecordSucceeded :: "string \<Rightarrow> int \<Rightarrow> CameraImpl \<Rightarrow> CameraImpl" where
  "OnVideoRecordSucceeded filepath video_duration cam =
     (if messenger cam \<and> 0 \<le> camera_id cam
      then reply (InvokeMethod (camera_id cam) kVideoRecordedEvent
                    (EMap [(EString ''path'', EString filepath),
                           (EString ''maxVideoDuration'', EInt video_duration)])) cam
      else cam)"

definition OnVideoRecordFailed :: "string \<Rightarrow> CameraImpl \<Rightarrow> CameraImpl" where
  "OnVideoRecordFailed error cam = cam"

definition OnCaptureError :: "string \<Rightarrow> CameraImpl \<Rightarrow> CameraImpl" where
  "OnCaptureError error cam =
     SendErrorForPendingResults ''capture_error'' error
       (if messenger cam \<and> 0 \<le> camera_id cam
        then reply (InvokeMethod (camera_id cam) kErrorEvent
                      (EMap [(EString ''description'', EString error)])) cam
        else cam)"

text \<open>
  The calls that a capture controller makes on its listener, as data, and their
  delivery to a \<open>CameraImpl\<close>. No callback of \<open>CameraImpl\<close> calls back into
  the controller, so a run of the controller is its new state together with the calls it
  made, delivered in order.
\<close>

datatype listener_call =
    Call_OnCreateCaptureEngineSucceeded int
  | Call_OnCreateCaptureEngineFailed string
  | Call_OnStartPreviewSucceeded int int
  | Call_OnStartPreviewFailed string
  | Call_OnResumePreviewSucceeded
  | Call_OnResumePreviewFailed string
  | Call_OnPausePreviewSucceeded
  | Call_OnPausePreviewFailed string
  | Call_OnStartRecordSucceeded
  | Call_OnStartRecordFailed string
  | Call_OnStopRecordSucceeded string
  | Call_OnStopRecordFailed string
  | Call_OnTakePictureSucceeded string
  | Call_OnTakePictureFailed string
  | Call_OnVideoRecordSucceeded string int
  | Call_OnVideoRecordFailed string
  | Call_OnCaptureError string

fun deliver :: "listener_call \<Rightarrow> CameraImpl \<Rightarrow> CameraImpl" where
  "deliver (Call_OnCreateCaptureEngineSucceeded texture_id) = OnCreateCaptureEngineSucceeded texture_id"
| "deliver (Call_OnCreateCaptureEngineFailed error) = OnCreateCaptureEngineFailed error"
| "deliver (Call_OnStartPreviewSucceeded width height) = OnStartPreviewSucceeded width height"
| "deliver (Call_OnStartPreviewFailed error) = OnStartPreviewFailed error"
| "deliver Call_OnResumePreviewSucceeded = OnResumePreviewSucceeded"
| "deliver (Call_OnResumePreviewFailed error) = OnResumePreviewFailed error"
| "deliver Call_OnPausePreviewSucceeded = OnPausePreviewSucceeded"
| "deliver (Call_OnPausePreviewFailed error) = OnPausePreviewFailed error"
| "deliver Call_OnStartRecordSucceeded = OnStartRecordSucceeded"
| "deliver (Call_OnStartRecordFailed error) = OnStartRecordFailed error"
| "deliver (Call_OnStopRecordSucceeded filepath) = OnStopRecordSucceeded filepath"
| "deliver (Call_OnStopRecordFailed error) = OnStopRecordFailed error"
| "deliver (Call_OnTakePictureSucceeded filepath) = OnTakePictureSucceeded filepath"
| "deliver (Call_OnTakePictureFailed error) = OnTakePictureFailed error"
| "deliver (Call_OnVideoRecordSucceeded filepath video_duration) =
     OnVideoRecordSucceeded filepath video_duration"
| "deliver (Call_OnVideoRecordFailed error) = OnVideoRecordFailed error"
| "deliver (Call_OnCaptureError error) = OnCaptureError error"

definition deliver_all :: "listener_call list \<Rightarrow> CameraImpl \<Rightarrow> CameraImpl" where
  "deliver_all calls cam = foldl (\<lambda>c call. deliver call c) cam calls"

subsection \<open>CaptureControllerImpl (capture\_controller.cpp): state\<close>

text \<open>
  Modelled from the spec: the enumerations \<^verbatim>\<open>CaptureEngineState\<close> and
  \<^verbatim>\<open>ResolutionPreset\<close> and the members of the class are declared in
  \<^verbatim>\<open>capture_controller.h\<close>, which is not part of the sources; the constructors and
  fields are the ones that \<^verbatim>\<open>capture_controller.cpp\<close> names.
\<close>

datatype CaptureEngineState =
    CAPTURE_ENGINE_NOT_INITIALIZED
  | CAPTURE_ENGINE_INITIALIZING
  | CAPTURE_ENGINE_INITIALIZED

datatype ResolutionPreset =
    RESOLUTION_PRESET_AUTO
  | RESOLUTION_PRESET_ULTRA_HIGH
  | RESOLUTION_PRESET_VERY_HIGH
  | RESOLUTION_PRESET_HIGH
  | RESOLUTION_PRESET_MEDIUM
  | RESOLUTION_PRESET_LOW

text \<open>
  A native media type is named by its index in the enumeration of its stream. An entry
  of the enumeration carries its frame size, or nothing when \<^verbatim>\<open>MFGetAttributeSize\<close>
  fails on it; the enumeration ends where \<^verbatim>\<open>GetAvailableDeviceMediaType\<close> fails.
\<close>

type_synonym media_type = nat
type_synonym media_type_entry = "(u32 \<times> u32) option"

record FlutterDesktopPixelBuffer =
  buffer :: "u8 list"
  width :: nat
  height :: nat

text \<open>
  The pointer \<open>capture_controller_listener\<close> is kept as the fact that it is not
  null; the calls made through it are appended to \<open>listener_calls\<close>. Likewise
  for the engine, its callback handler and the texture registrar. The device sources and
  the Direct3D device with its manager are native objects that only the creation of the
  engine touches; they are left out, and an object that already exists is the case of a
  creation that succeeds.
\<close>

record CaptureControllerImpl =
  capture_controller_listener :: bool
  listener_calls :: "listener_call list"
  capture_engine_state :: CaptureEngineState
  media_foundation_started :: bool
  record_handler :: "RecordHandler option"
  preview_handler :: "PreviewHandler option"
  photo_handler :: "PhotoHandler option"
  preview_frame_width :: u32
  preview_frame_height :: u32
  capture_engine_callback_handler :: bool
  capture_engine :: bool
  base_preview_media_type :: "media_type option"
  base_capture_media_type :: "media_type option"
  resolution_preset :: ResolutionPreset
  record_audio :: bool
  texture_registrar :: bool
  video_device_id :: string
  texture_id :: int
  source_buffer_data :: "u8 list option"
  source_buffer_size :: u32
  dest_buffer :: "u8 list option"

text \<open>
  The results of the native calls that a member function may make, in one record:
  each function reads the fields of the calls it makes.
\<close>

record native_results =
  hr_MFStartup :: hresult
  hr_CreateEngineInstance :: hresult
  hr_CreateD3DManager :: hresult
  hr_CreateVideoSource :: hresult
  hr_CreateAudioSource :: hresult
  hr_EngineAttributes :: hresult
  hr_EngineInitialize :: hresult
  new_texture_id :: int
  hr_GetSource :: hresult
  preview_stream_types :: "media_type_entry list"
  record_stream_types :: "media_type_entry list"
  sink_calls :: preview_sink_calls
  hr_StartPreview :: hresult
  hr_StopPreview :: hresult
  hr_StartRecord :: hresult
  hr_StopRecord :: hresult
  hr_TakePhoto :: hresult

definition deref :: "'a option \<Rightarrow> fault + 'a" where
  "deref p = (case p of None \<Rightarrow> Inl NullDereference | Some x \<Rightarrow> Inr x)"

definition notify :: "listener_call \<Rightarrow> CaptureControllerImpl \<Rightarrow> CaptureControllerImpl" where
  "notify call c = c\<lparr>listener_calls := listener_calls c @ [call]\<rparr>"

text \<open>A call through the listener pointer that the source makes without a null check.\<close>

definition notify_unchecked ::
  "listener_call \<Rightarrow> CaptureControllerImpl \<Rightarrow> fault + CaptureControllerImpl" where
  "notify_unchecked call c =
     (if capture_controller_listener c then Inr (notify call c) else Inl NullDereference)"

subsection \<open>CaptureControllerImpl: handlers of pipeline events\<close>

definition OnPicture :: "bool \<Rightarrow> string \<Rightarrow> CaptureControllerImpl \<Rightarrow> CaptureControllerImpl" where
  "OnPicture success error c =
     (case photo_handler c of
        Some ph \<Rightarrow>
          if success
          then (if capture_controller_listener c
                then notify (Call_OnTakePictureSucceeded (GetPhotoPath ph)) c else c)
               \<lparr>photo_handler := Some (OnPhotoTaken ph)\<rparr>
          else (if capture_controller_listener c
                then notify (Call_OnTakePictureFailed error) c else c)
               \<lparr>photo_handler := None\<rparr>
      | None \<Rightarrow>
          (if capture_controller_listener c
           then notify (Call_OnTakePictureFailed error) c else c)
          \<lparr>photo_handler := None\<rparr>)"

definition OnCaptureEngineError ::
  "hresult \<Rightarrow> string \<Rightarrow> CaptureControllerImpl \<Rightarrow> CaptureControllerImpl" where
  "OnCaptureEngineError hr error c =
     (if capture_controller_listener c then notify (Call_OnCaptureError error) c else c)"

definition OnPreviewStarted ::
  "bool \<Rightarrow> string \<Rightarrow> CaptureControllerImpl \<Rightarrow> fault + CaptureControllerImpl" where
  "OnPreviewStarted success error c =
     and_then
       (case preview_handler c of
          Some p \<Rightarrow>
            if success
            then and_then (PreviewHandler_OnPreviewStarted p)
                   (\<lambda>p1. Inr (c\<lparr>preview_handler := Some p1\<rparr>))
            else Inr (c\<lparr>preview_handler := None\<rparr>)
        | None \<Rightarrow> Inr (c\<lparr>preview_handler := None\<rparr>))
       (\<lambda>c1. Inr
          (if capture_controller_listener c1
           then if success \<and> 0 < preview_frame_width c1 \<and> 0 < preview_frame_height c1
                then notify (Call_OnStartPreviewSucceeded (sint (preview_frame_width c1))
                               (sint (preview_frame_height c1))) c1
                else notify (Call_OnStartPreviewFailed error) c1
           else c1))"

definition OnPreviewStopped ::
  "bool \<Rightarrow> string \<Rightarrow> CaptureControllerImpl \<Rightarrow> CaptureControllerImpl" where
  "OnPreviewStopped success error c = c\<lparr>preview_handler := None\<rparr>"

definition OnRecordStarted ::
  "bool \<Rightarrow> string \<Rightarrow> CaptureControllerImpl \<Rightarrow> CaptureControllerImpl" where
  "OnRecordStarted success error c =
     (case record_handler c of
        Some rh \<Rightarrow>
          if success
          then (if capture_controller_listener c then notify Call_OnStartRecordSucceeded else id)
                 (c\<lparr>record_handler := Some (RecordHandler_OnRecordStarted rh)\<rparr>)
          else (if capture_controller_listener c
                then notify (Call_OnStartRecordFailed error) c else c)
               \<lparr>record_handler := None\<rparr>
      | None \<Rightarrow>
          (if capture_controller_listener c
           then notify (Call_OnStartRecordFailed error) c else c)
          \<lparr>record_handler := None\<rparr>)"

text \<open>
  The first statement of \<^verbatim>\<open>OnRecordStopped\<close>: the calls on the listener, made only
  when both the listener and the record handler exist.
\<close>

definition OnRecordStopped_notify ::
  "bool \<Rightarrow> string \<Rightarrow> CaptureControllerImpl \<Rightarrow> CaptureControllerImpl" where
  "OnRecordStopped_notify success error c =
     (case record_handler c of
        Some rh \<Rightarrow>
          if capture_controller_listener c
          then if success
               then let path = GetRecordPath rh;
                        c1 = notify (Call_OnStopRecordSucceeded path) c
                    in if IsTimedRecording rh
                       then notify (Call_OnVideoRecordSucceeded path
                                      (int (GetRecordedDuration rh div 1000))) c1
                       else c1
               else let c1 = notify (Call_OnStopRecordFailed error) c
                    in if IsTimedRecording rh
                       then notify (Call_OnVideoRecordFailed error) c1
                       else c1
          else c
      | None \<Rightarrow> c)"

definition OnRecordStopped ::
  "bool \<Rightarrow> string \<Rightarrow> CaptureControllerImpl \<Rightarrow> CaptureControllerImpl" where
  "OnRecordStopped success error c =
     (let c1 = OnRecordStopped_notify success error c
      in case record_handler c1 of
           Some rh \<Rightarrow>
             if success then c1\<lparr>record_handler := Some (RecordHandler_OnRecordStopped rh)\<rparr>
             else c1\<lparr>record_handler := None\<rparr>
         | None \<Rightarrow> c1\<lparr>record_handler := None\<rparr>)"

subsection \<open>CaptureControllerImpl: requests\<close>

text \<open>
  \<^verbatim>\<open>StopRecord\<close> tests \<^verbatim>\<open>!record_handler_ && !record_handler_->CanStop()\<close>. The
  right operand of \<^verbatim>\<open>&&\<close> is evaluated exactly when the left one holds, that is,
  when the handler pointer is null, and then it calls through that pointer.
\<close>

definition StopRecord_guard :: "CaptureControllerImpl \<Rightarrow> fault + bool" where
  "StopRecord_guard c =
     (if record_handler c = None
      then and_then (deref (record_handler c)) (\<lambda>rh. Inr (\<not> CanStop rh))
      else Inr False)"

definition StopRecord ::
  "native_results \<Rightarrow> CaptureControllerImpl \<Rightarrow> fault + CaptureControllerImpl" where
  "StopRecord env c =
     (if \<not> capture_controller_listener c then Inl AssertionFailed
      else if capture_engine_state c \<noteq> CAPTURE_ENGINE_INITIALIZED
      then Inr (OnRecordStopped False
                  ''Camera not initialized. Camera should be disposed and reinitialized.'' c)
      else and_then (StopRecord_guard c) (\<lambda>cannot_stop.
        if cannot_stop then Inr (OnRecordStopped False ''Recording cannot be stopped.'' c)
        else and_then (deref (record_handler c)) (\<lambda>rh.
          case RecordHandler_StopRecord (hr_StopRecord env) rh of (rh1, stopped) \<Rightarrow>
            if \<not> stopped
            then Inr (OnRecordStopped False ''Failed to stop video recording''
                        (c\<lparr>record_handler := None\<rparr>))
            else Inr (c\<lparr>record_handler := Some rh1\<rparr>))))"

definition StopTimedRecord ::
  "native_results \<Rightarrow> CaptureControllerImpl \<Rightarrow> fault + CaptureControllerImpl" where
  "StopTimedRecord env c =
     (if \<not> capture_controller_listener c then Inl AssertionFailed
      else case record_handler c of
             None \<Rightarrow> Inr c
           | Some rh \<Rightarrow>
               if \<not> IsTimedRecording rh then Inr c
               else case RecordHandler_StopRecord (hr_StopRecord env) rh of (rh1, stopped) \<Rightarrow>
                 if \<not> stopped
                 then notify_unchecked (Call_OnVideoRecordFailed ''Failed to record video'')
                        (c\<lparr>record_handler := None\<rparr>)
                 else Inr (c\<lparr>record_handler := Some rh1\<rparr>))"

definition StopPreview ::
  "native_results \<Rightarrow> CaptureControllerImpl \<Rightarrow> fault + CaptureControllerImpl" where
  "StopPreview env c =
     (if \<not> capture_engine c then Inl AssertionFailed
      else if capture_engine_state c \<noteq> CAPTURE_ENGINE_INITIALIZED \<and> preview_handler c = None
      then Inr c
      else and_then (deref (preview_handler c)) (\<lambda>p.
        Inr (c\<lparr>preview_handler := Some (fst (PreviewHandler_StopPreview (hr_StopPreview env) p))\<rparr>)))"

text \<open>
  \<^verbatim>\<open>PausePreview\<close> and \<^verbatim>\<open>ResumePreview\<close> test
  \<^verbatim>\<open>!preview_handler_ && !preview_handler_->IsInitialized()\<close>, of the same shape.
\<close>

definition preview_not_started :: "CaptureControllerImpl \<Rightarrow> fault + bool" where
  "preview_not_started c =
     (if preview_handler c = None
      then and_then (deref (preview_handler c)) (\<lambda>p. Inr (\<not> IsInitialized p))
      else Inr False)"

definition PausePreview :: "CaptureControllerImpl \<Rightarrow> fault + CaptureControllerImpl" where
  "PausePreview c =
     (if \<not> capture_controller_listener c then Inl AssertionFailed
      else and_then (preview_not_started c) (\<lambda>not_started.
        if not_started then notify_unchecked (Call_OnPausePreviewFailed ''Preview not started'') c
        else and_then (deref (preview_handler c)) (\<lambda>p.
          case PreviewHandler_PausePreview p of (p1, paused) \<Rightarrow>
            if paused
            then notify_unchecked Call_OnPausePreviewSucceeded (c\<lparr>preview_handler := Some p1\<rparr>)
            else notify_unchecked (Call_OnPausePreviewFailed ''Failed to pause preview'')
                   (c\<lparr>preview_handler := Some p1\<rparr>))))"

definition ResumePreview :: "CaptureControllerImpl \<Rightarrow> fault + CaptureControllerImpl" where
  "ResumePreview c =
     (if \<not> capture_controller_listener c then Inl AssertionFailed
      else and_then (preview_not_started c) (\<lambda>not_started.
        if not_started then notify_unchecked (Call_OnResumePreviewFailed ''Preview not started'') c
        else and_then (deref (preview_handler c)) (\<lambda>p.
          case PreviewHandler_ResumePreview p of (p1, resumed) \<Rightarrow>
            if resumed
            then notify_unchecked Call_OnResumePreviewSucceeded (c\<lparr>preview_handler := Some p1\<rparr>)
            else notify_unchecked (Call_OnResumePreviewFailed ''Failed to pause preview'')
                   (c\<lparr>preview_handler := Some p1\<rparr>))))"

subsection \<open>CaptureControllerImpl: choice of the media types\<close>

definition GetMaxPreviewHeight :: "CaptureControllerImpl \<Rightarrow> u32" where
  "GetMaxPreviewHeight c =
     (case resolution_preset c of
        RESOLUTION_PRESET_LOW \<Rightarrow> 240
      | RESOLUTION_PRESET_MEDIUM \<Rightarrow> 480
      | RESOLUTION_PRESET_HIGH \<Rightarrow> 720
      | RESOLUTION_PRESET_VERY_HIGH \<Rightarrow> 1080
      | RESOLUTION_PRESET_ULTRA_HIGH \<Rightarrow> 2160
      | RESOLUTION_PRESET_AUTO \<Rightarrow> 0xffffffff)"

text \<open>
  The loop of \<^verbatim>\<open>FindBestMediaType\<close> over the native media types, from index
  \<open>i\<close> on. The state of the loop is the media type stored through
  \<^verbatim>\<open>target_media_type\<close> so far and the best width and height.
\<close>

fun FindBestMediaType_loop ::
  "nat \<Rightarrow> media_type_entry list \<Rightarrow> u32 \<Rightarrow> media_type option \<times> u32 \<times> u32
     \<Rightarrow> media_type option \<times> u32 \<times> u32" where
  "FindBestMediaType_loop i [] max_height best = best"
| "FindBestMediaType_loop i (entry # entries) max_height (target, best_width, best_height) =
     FindBestMediaType_loop (Suc i) entries max_height
       (case entry of
          None \<Rightarrow> (target, best_width, best_height)
        | Some (frame_width, frame_height) \<Rightarrow>
            if frame_height \<le> max_height
               \<and> (best_width < frame_width \<or> best_height < frame_height)
            then (Some i, frame_width, frame_height)
            else (target, best_width, best_height))"

text \<open>
  \<open>target0\<close> is what \<^verbatim>\<open>*target_media_type\<close> holds when the function is
  called; the function never clears it. The result is the returned boolean, the media
  type it leaves there, and the best width and height, which the source stores only for
  a caller that passes both pointers.
\<close>

definition FindBestMediaType ::
  "media_type_entry list \<Rightarrow> u32 \<Rightarrow> media_type option \<Rightarrow> bool \<times> media_type option \<times> u32 \<times> u32" where
  "FindBestMediaType entries max_height target0 =
     (case FindBestMediaType_loop 0 entries max_height (target0, 0, 0) of
        (target, best_width, best_height) \<Rightarrow> (target \<noteq> None, target, best_width, best_height))"

definition FindBaseMediaTypes ::
  "native_results \<Rightarrow> CaptureControllerImpl \<Rightarrow> CaptureControllerImpl \<times> hresult" where
  "FindBaseMediaTypes env c =
     (if capture_engine_state c \<noteq> CAPTURE_ENGINE_INITIALIZED then (c, E_FAIL)
      else if FAILED (hr_GetSource env) then (c, hr_GetSource env)
      else case FindBestMediaType (preview_stream_types env) (GetMaxPreviewHeight c)
                  (base_preview_media_type c) of
        (found, target, best_width, best_height) \<Rightarrow>
          let c1 = c\<lparr>base_preview_media_type := target, preview_frame_width := best_width,
                     preview_frame_height := best_height\<rparr>
          in if \<not> found then (c1, E_FAIL)
             else case FindBestMediaType (record_stream_types env) 0xffffffff
                         (base_capture_media_type c1) of
               (found2, target2, w2, h2) \<Rightarrow>
                 let c2 = c1\<lparr>base_capture_media_type := target2\<rparr>
                 in if \<not> found2 then (c2, E_FAIL) else (c2, S_OK))"

subsection \<open>CaptureControllerImpl: start of preview, recording and photo\<close>

definition TakePicture ::
  "native_results \<Rightarrow> string \<Rightarrow> CaptureControllerImpl \<Rightarrow> fault + CaptureControllerImpl" where
  "TakePicture env file_path c =
     (if \<not> capture_engine_callback_handler c then Inl AssertionFailed
      else if \<not> capture_engine c then Inl AssertionFailed
      else if capture_engine_state c \<noteq> CAPTURE_ENGINE_INITIALIZED
      then Inr (OnPicture False ''Not initialized'' c)
      else
        case (if base_capture_media_type c = None then FindBaseMediaTypes env c else (c, S_OK)) of
          (c1, hr) \<Rightarrow>
            if FAILED hr then Inr (OnPicture False ''Failed to initialize photo capture'' c1)
            else if (case photo_handler c1 of Some ph \<Rightarrow> IsTakingPhoto ph | None \<Rightarrow> False)
            then Inr (OnPicture False ''Photo already requested'' c1)
            else
              case TakePhoto file_path (hr_TakePhoto env)
                     (case photo_handler c1 of Some ph \<Rightarrow> ph | None \<Rightarrow> new_PhotoHandler) of
                (ph1, taken) \<Rightarrow>
                  if \<not> taken
                  then Inr (OnPicture False ''Failed to take photo'' (c1\<lparr>photo_handler := None\<rparr>))
                  else Inr (c1\<lparr>photo_handler := Some ph1\<rparr>))"

definition StartRecord ::
  "native_results \<Rightarrow> string \<Rightarrow> int \<Rightarrow> CaptureControllerImpl \<Rightarrow> fault + CaptureControllerImpl" where
  "StartRecord env file_path max_video_duration c =
     (if \<not> capture_engine c then Inl AssertionFailed
      else if capture_engine_state c \<noteq> CAPTURE_ENGINE_INITIALIZED
      then Inr (OnRecordStarted False
                  ''Camera not initialized. Camera should be disposed and reinitialized.'' c)
      else
        case (if base_capture_media_type c = None then FindBaseMediaTypes env c else (c, S_OK)) of
          (c1, hr) \<Rightarrow>
            if FAILED hr then Inr (OnRecordStarted False ''Failed to initialize video recording'' c1)
            else if (case record_handler c1 of Some rh \<Rightarrow> \<not> CanStart rh | None \<Rightarrow> False)
            then Inr (OnRecordStarted False
                   ''Recording cannot be started. Previous recording must be stopped first.'' c1)
            else
              case RecordHandler_StartRecord file_path max_video_duration (hr_StartRecord env)
                     (case record_handler c1 of
                        Some rh \<Rightarrow> rh | None \<Rightarrow> new_RecordHandler (record_audio c1)) of
                (rh1, started) \<Rightarrow>
                  if \<not> started
                  then Inr (OnRecordStarted False ''Failed to start video recording''
                              (c1\<lparr>record_handler := None\<rparr>))
                  else Inr (c1\<lparr>record_handler := Some rh1\<rparr>))"

text \<open>
  \<^verbatim>\<open>StartPreview\<close> hands the base media type of the record stream,
  \<^verbatim>\<open>base_capture_media_type_\<close>, to the preview handler.
\<close>

definition StartPreview ::
  "native_results \<Rightarrow> CaptureControllerImpl \<Rightarrow> fault + CaptureControllerImpl" where
  "StartPreview env c =
     (if \<not> capture_engine_callback_handler c then Inl AssertionFailed
      else if \<not> capture_engine c then Inl AssertionFailed
      else if capture_engine_state c \<noteq> CAPTURE_ENGINE_INITIALIZED
      then OnPreviewStarted False
             ''Camera not initialized. Camera should be disposed and reinitialized.'' c
      else
        case (if base_preview_media_type c = None then FindBaseMediaTypes env c else (c, S_OK)) of
          (c1, hr) \<Rightarrow>
            if FAILED hr then OnPreviewStarted False ''Failed to initialize video preview'' c1
            else
              (case preview_handler c1 of
                 Some p \<Rightarrow>
                   if IsInitialized p then OnPreviewStarted True [] c1
                   else OnPreviewStarted False ''Preview already exists'' c1
               | None \<Rightarrow>
                   and_then
                     (PreviewHandler_StartPreview (capture_engine c1)
                        (base_capture_media_type c1 \<noteq> None) (sink_calls env)
                        (hr_StartPreview env) new_PreviewHandler)
                     (\<lambda>started_handler.
                        if \<not> snd started_handler
                        then OnPreviewStarted False ''Failed to start video preview''
                               (c1\<lparr>preview_handler := None\<rparr>)
                        else Inr (c1\<lparr>preview_handler := Some (fst started_handler)\<rparr>))))"

subsection \<open>CaptureControllerImpl: creation, reset and destruction\<close>

text \<open>
  Modelled from the spec: the constructor stores the listener; the initial values of the
  other members are given in \<^verbatim>\<open>capture_controller.h\<close>, which is not part of the
  sources. They are taken to be the values that \<^verbatim>\<open>ResetCaptureController\<close> restores
  (not initialized, no handler, no engine, texture id -1), with no frame buffer yet.
\<close>

definition new_CaptureControllerImpl :: "bool \<Rightarrow> CaptureControllerImpl" where
  "new_CaptureControllerImpl listener =
     \<lparr>capture_controller_listener = listener, listener_calls = [],
      capture_engine_state = CAPTURE_ENGINE_NOT_INITIALIZED,
      media_foundation_started = False, record_handler = None, preview_handler = None,
      photo_handler = None, preview_frame_width = 0, preview_frame_height = 0,
      capture_engine_callback_handler = False, capture_engine = False,
      base_preview_media_type = None, base_capture_media_type = None,
      resolution_preset = RESOLUTION_PRESET_AUTO, record_audio = False,
      texture_registrar = False, video_device_id = [], texture_id = - 1,
      source_buffer_data = None, source_buffer_size = 0, dest_buffer = None\<rparr>"

definition ResetCaptureController ::
  "native_results \<Rightarrow> CaptureControllerImpl \<Rightarrow> fault + CaptureControllerImpl" where
  "ResetCaptureController env c =
     and_then
       (case record_handler c of
          Some rh \<Rightarrow>
            if IsContinuousRecording rh then StopRecord env c
            else if IsTimedRecording rh then StopTimedRecord env c
            else Inr c
        | None \<Rightarrow> Inr c)
       (\<lambda>c1. and_then
          (if preview_handler c1 \<noteq> None then StopPreview env c1 else Inr c1)
          (\<lambda>c2. Inr (c2\<lparr>media_foundation_started := False,
                         capture_engine_state := CAPTURE_ENGINE_NOT_INITIALIZED,
                         record_handler := None,
                         preview_handler := None,
                         photo_handler := None,
                         preview_frame_width := 0,
                         preview_frame_height := 0,
                         capture_engine_callback_handler := False,
                         capture_engine := False,
                         base_preview_media_type := None,
                         base_capture_media_type := None,
                         texture_id := - 1\<rparr>)))"

definition CaptureControllerImpl_dtor ::
  "native_results \<Rightarrow> CaptureControllerImpl \<Rightarrow> fault + CaptureControllerImpl" where
  "CaptureControllerImpl_dtor env c =
     and_then (ResetCaptureController env c)
       (\<lambda>c1. Inr (c1\<lparr>capture_controller_listener := False\<rparr>))"

definition CreateCaptureEngine ::
  "native_results \<Rightarrow> CaptureControllerImpl \<Rightarrow> fault + CaptureControllerImpl \<times> hresult" where
  "CreateCaptureEngine env c =
     (if video_device_id c = [] then Inl AssertionFailed
      else if \<not> capture_engine c \<and> FAILED (hr_CreateEngineInstance env)
      then Inr (c, hr_CreateEngineInstance env)
      else
        let c1 = c\<lparr>capture_engine := True\<rparr>
        in if FAILED (hr_CreateD3DManager env) then Inr (c1, hr_CreateD3DManager env)
           else if FAILED (hr_CreateVideoSource env) then Inr (c1, hr_CreateVideoSource env)
           else if record_audio c1 \<and> FAILED (hr_CreateAudioSource env)
           then Inr (c1, hr_CreateAudioSource env)
           else
             let c2 = c1\<lparr>capture_engine_callback_handler := True\<rparr>
             in if FAILED (hr_EngineAttributes env) then Inr (c2, hr_EngineAttributes env)
                else Inr (c2, hr_EngineInitialize env))"

definition InitCaptureDevice ::
  "native_results \<Rightarrow> bool \<Rightarrow> string \<Rightarrow> bool \<Rightarrow> ResolutionPreset \<Rightarrow> CaptureControllerImpl
     \<Rightarrow> fault + CaptureControllerImpl" where
  "InitCaptureDevice env registrar device audio preset c =
     (if \<not> capture_controller_listener c then Inl AssertionFailed
      else if capture_engine_state c = CAPTURE_ENGINE_INITIALIZED \<and> 0 \<le> texture_id c
      then notify_unchecked
             (Call_OnCreateCaptureEngineFailed ''Capture device already initialized'') c
      else if capture_engine_state c = CAPTURE_ENGINE_INITIALIZING
      then notify_unchecked
             (Call_OnCreateCaptureEngineFailed ''Capture device already initializing'') c
      else
        let c1 = c\<lparr>capture_engine_state := CAPTURE_ENGINE_INITIALIZING,
                   resolution_preset := preset,
                   record_audio := audio,
                   texture_registrar := registrar,
                   video_device_id := device\<rparr>
        in if \<not> media_foundation_started c1 \<and> FAILED (hr_MFStartup env)
           then and_then
                  (notify_unchecked (Call_OnCreateCaptureEngineFailed ''Failed to create camera'') c1)
                  (ResetCaptureController env)
           else and_then (CreateCaptureEngine env (c1\<lparr>media_foundation_started := True\<rparr>))
                  (\<lambda>(c2, hr).
                     if FAILED hr
                     then and_then
                            (notify_unchecked
                               (Call_OnCreateCaptureEngineFailed ''Failed to create camera'') c2)
                            (ResetCaptureController env)
                     else Inr c2))"

definition OnCaptureEngineInitialized ::
  "native_results \<Rightarrow> bool \<Rightarrow> string \<Rightarrow> CaptureControllerImpl \<Rightarrow> fault + CaptureControllerImpl" where
  "OnCaptureEngineInitialized env success error c =
     (if capture_controller_listener c
      then if \<not> texture_registrar c then Inl NullDereference
           else if 0 \<le> new_texture_id env
           then Inr ((notify (Call_OnCreateCaptureEngineSucceeded (new_texture_id env))
                        (c\<lparr>texture_id := new_texture_id env\<rparr>))
                     \<lparr>capture_engine_state := CAPTURE_ENGINE_INITIALIZED\<rparr>)
           else ResetCaptureController env
                  (notify (Call_OnCreateCaptureEngineFailed ''Failed to create texture_id'') c)
      else Inr c)"

subsection \<open>CaptureControllerImpl: the event router and the frame callbacks\<close>

text \<open>
  The extended type of a pipeline event, and what the router reads from an event: its
  extended type and its status (each absent when the getter fails) and the message that
  \<^verbatim>\<open>std::system_category().message\<close> gives for the status.
\<close>

datatype capture_engine_event =
    MF_CAPTURE_ENGINE_ERROR
  | MF_CAPTURE_ENGINE_INITIALIZED
  | MF_CAPTURE_ENGINE_PREVIEW_STARTED
  | MF_CAPTURE_ENGINE_PREVIEW_STOPPED
  | MF_CAPTURE_ENGINE_RECORD_STARTED
  | MF_CAPTURE_ENGINE_RECORD_STOPPED
  | MF_CAPTURE_ENGINE_PHOTO_TAKEN
  | MF_CAPTURE_ENGINE_CAMERA_STREAM_BLOCKED
  | MF_CAPTURE_ENGINE_CAMERA_STREAM_UNBLOCKED
  | MF_OTHER_EVENT nat

record media_event =
  extended_type :: "capture_engine_event option"
  status :: "hresult option"
  status_message :: string

text \<open>The chain of comparisons of the extended type in \<^verbatim>\<open>OnEvent\<close>.\<close>

fun OnEvent_dispatch ::
  "native_results \<Rightarrow> capture_engine_event \<Rightarrow> hresult \<Rightarrow> string \<Rightarrow> CaptureControllerImpl
     \<Rightarrow> fault + CaptureControllerImpl" where
  "OnEvent_dispatch env MF_CAPTURE_ENGINE_ERROR event_hr error c =
     Inr (OnCaptureEngineError event_hr error c)"
| "OnEvent_dispatch env MF_CAPTURE_ENGINE_INITIALIZED event_hr error c =
     OnCaptureEngineInitialized env (SUCCEEDED event_hr) error c"
| "OnEvent_dispatch env MF_CAPTURE_ENGINE_PREVIEW_STARTED event_hr error c = Inr c"
| "OnEvent_dispatch env MF_CAPTURE_ENGINE_PREVIEW_STOPPED event_hr error c =
     Inr (OnPreviewStopped (SUCCEEDED event_hr) error c)"
| "OnEvent_dispatch env MF_CAPTURE_ENGINE_RECORD_STARTED event_hr error c =
     Inr (OnRecordStarted (SUCCEEDED event_hr) error c)"
| "OnEvent_dispatch env MF_CAPTURE_ENGINE_RECORD_STOPPED event_hr error c =
     Inr (OnRecordStopped (SUCCEEDED event_hr) error c)"
| "OnEvent_dispatch env MF_CAPTURE_ENGINE_PHOTO_TAKEN event_hr error c =
     Inr (OnPicture (SUCCEEDED event_hr) error c)"
| "OnEvent_dispatch env MF_CAPTURE_ENGINE_CAMERA_STREAM_BLOCKED event_hr error c = Inr c"
| "OnEvent_dispatch env MF_CAPTURE_ENGINE_CAMERA_STREAM_UNBLOCKED event_hr error c = Inr c"
| "OnEvent_dispatch env (MF_OTHER_EVENT other) event_hr error c = Inr c"

definition OnEvent ::
  "native_results \<Rightarrow> media_event \<Rightarrow> CaptureControllerImpl \<Rightarrow> fault + CaptureControllerImpl" where
  "OnEvent env event c =
     (if capture_engine_state c \<noteq> CAPTURE_ENGINE_INITIALIZED
         \<and> capture_engine_state c \<noteq> CAPTURE_ENGINE_INITIALIZING
      then Inr c
      else (case extended_type event of
              None \<Rightarrow> Inr c
            | Some extended_type_guid \<Rightarrow>
                (case status event of
                   None \<Rightarrow> Inr c
                 | Some event_hr \<Rightarrow>
                     OnEvent_dispatch env extended_type_guid event_hr
                       (if FAILED event_hr then status_message event else []) c)))"

definition UpdateCaptureTime ::
  "native_results \<Rightarrow> nat \<Rightarrow> CaptureControllerImpl \<Rightarrow> fault + CaptureControllerImpl" where
  "UpdateCaptureTime env capture_time_us c =
     (if capture_engine_state c \<noteq> CAPTURE_ENGINE_INITIALIZED then Inr c
      else and_then
        (if (case preview_handler c of Some p \<Rightarrow> IsStarting p | None \<Rightarrow> False)
         then OnPreviewStarted True [] c
         else Inr c)
        (\<lambda>c1. case record_handler c1 of
                 None \<Rightarrow> Inr c1
               | Some rh \<Rightarrow>
                   let rh1 = UpdateRecordingTime capture_time_us rh;
                       c2 = c1\<lparr>record_handler := Some rh1\<rparr>
                   in if ShouldStopTimedRecording rh1 then StopTimedRecord env c2 else Inr c2))"

definition GetFrameBuffer :: "u32 \<Rightarrow> CaptureControllerImpl \<Rightarrow> CaptureControllerImpl" where
  "GetFrameBuffer new_length c =
     (if source_buffer_data c = None \<or> source_buffer_size c \<noteq> new_length
      then c\<lparr>source_buffer_data := Some (replicate (unat new_length) 0),
             source_buffer_size := new_length\<rparr>
      else c)"

text \<open>
  Modelled from the spec: the pixel structures \<^verbatim>\<open>MFVideoFormatRGB32Pixel\<close> and
  \<^verbatim>\<open>FlutterDesktopPixel\<close> are declared in \<^verbatim>\<open>capture_controller.h\<close>, which is
  not part of the sources. Both have four fields of one byte: the device layout is the
  one of the RGB32 subtype that the preview is given (blue, green, red, unused), the
  presentation layout is red, green, blue, alpha.
\<close>

definition src_r :: "u8 list \<Rightarrow> nat \<Rightarrow> u8" where
  "src_r src i = src ! (4 * i + 2)"

definition src_g :: "u8 list \<Rightarrow> nat \<Rightarrow> u8" where
  "src_g src i = src ! (4 * i + 1)"

definition src_b :: "u8 list \<Rightarrow> nat \<Rightarrow> u8" where
  "src_b src i = src ! (4 * i)"

definition set_dst_pixel :: "nat \<Rightarrow> u8 \<Rightarrow> u8 \<Rightarrow> u8 \<Rightarrow> u8 \<Rightarrow> u8 list \<Rightarrow> u8 list" where
  "set_dst_pixel i r g b a dst = dst[4 * i := r, 4 * i + 1 := g, 4 * i + 2 := b, 4 * i + 3 := a]"

text \<open>
  The loop of \<^verbatim>\<open>ConvertPixelBufferForFlutter\<close>. Pixel \<open>i\<close> is read from the
  source array and written to the destination array; an index past the end of either
  allocation is a fault. The first access to pixel \<open>i\<close> of the source is the one of
  its red byte, the last of the three bytes read.
\<close>

function convert_pixels :: "u8 list \<Rightarrow> nat \<Rightarrow> nat \<Rightarrow> u8 list \<Rightarrow> fault + u8 list" where
  "convert_pixels src pixels_total i dst =
     (if i < pixels_total
      then if length src \<le> 4 * i + 2 then Inl OutOfBoundsRead
           else if length dst \<le> 4 * i + 3 then Inl OutOfBoundsWrite
           else convert_pixels src pixels_total (Suc i)
                  (set_dst_pixel i (src_r src i) (src_g src i) (src_b src i) 255 dst)
      else Inr dst)"
  by pat_completeness auto
termination
  by (relation "measure (\<lambda>(src, pixels_total, i, dst). pixels_total - i)") auto

declare convert_pixels.simps [simp del]

definition ConvertPixelBufferForFlutter ::
  "nat \<Rightarrow> nat \<Rightarrow> CaptureControllerImpl
     \<Rightarrow> fault + CaptureControllerImpl \<times> FlutterDesktopPixelBuffer option" where
  "ConvertPixelBufferForFlutter target_width target_height c =
     (case source_buffer_data c of
        Some src \<Rightarrow>
          if 0 < source_buffer_size c \<and> 0 < preview_frame_width c \<and> 0 < preview_frame_height c
          then
            let pixels_total = preview_frame_width c * preview_frame_height c
            in and_then
                 (convert_pixels src (unat pixels_total) 0 (replicate (unat (pixels_total * 4)) 0))
                 (\<lambda>dst. Inr (c\<lparr>dest_buffer := Some dst\<rparr>,
                             Some \<lparr>buffer = dst,
                                   width = unat (preview_frame_width c),
                                   height = unat (preview_frame_height c)\<rparr>))
          else Inr (c, None)
      | None \<Rightarrow> Inr (c, None))"

text \<open>Pixel \<open>i\<close> of a presentation buffer: red, green, blue, alpha.\<close>

definition dst_pixel :: "u8 list \<Rightarrow> nat \<Rightarrow> u8 \<times> u8 \<times> u8 \<times> u8" where
  "dst_pixel dst i = (dst ! (4 * i), dst ! (4 * i + 1), dst ! (4 * i + 2), dst ! (4 * i + 3))"

subsection \<open>A camera together with its capture controller\<close>

text \<open>
  A member function of the controller run for a camera: the calls it makes on its
  listener are delivered to the camera, in order.
\<close>

definition with_listener ::
  "(CaptureControllerImpl \<Rightarrow> fault + CaptureControllerImpl)
     \<Rightarrow> CameraImpl \<times> CaptureControllerImpl \<Rightarrow> fault + CameraImpl \<times> CaptureControllerImpl" where
  "with_listener f session =
     and_then (f ((snd session)\<lparr>listener_calls := []\<rparr>))
       (\<lambda>c1. Inr (deliver_all (listener_calls c1) (fst session), c1))"

text \<open>
  The destructor of \<open>CameraImpl\<close>: it releases the capture controller, whose own
  destructor resets it, and then fails what is still pending.
\<close>

definition CameraImpl_dtor ::
  "native_results \<Rightarrow> CameraImpl \<Rightarrow> CaptureControllerImpl option \<Rightarrow> fault + CameraImpl" where
  "CameraImpl_dtor env cam capture_controller =
     and_then
       (case capture_controller of
          None \<Rightarrow> Inr cam
        | Some c \<Rightarrow>
            and_then (CaptureControllerImpl_dtor env (c\<lparr>listener_calls := []\<rparr>))
              (\<lambda>c1. Inr (deliver_all (listener_calls c1) cam)))
       (\<lambda>cam1. Inr (SendErrorForPendingResults ''Plugin disposed''
                       ''Plugin disposed before request was handled'' cam1))"

subsection \<open>The selection rule of the spec\<close>

text \<open>
  The test that the spec states for a candidate: its height is at most the cap, and its
  width or its height exceeds the best seen so far. \<open>best_so_far entries cap j\<close>
  is the best width and height after the scan of the first \<open>j\<close> entries, and
  \<open>passes entries cap j\<close> says that entry \<open>j\<close> meets the test when the scan
  reaches it.
\<close>

definition improves :: "u32 \<Rightarrow> u32 \<times> u32 \<Rightarrow> media_type_entry \<Rightarrow> bool" where
  "improves max_height best entry =
     (case entry of
        None \<Rightarrow> False
      | Some (frame_width, frame_height) \<Rightarrow>
          frame_height \<le> max_height \<and> (fst best < frame_width \<or> snd best < frame_height))"

definition best_so_far :: "media_type_entry list \<Rightarrow> u32 \<Rightarrow> nat \<Rightarrow> u32 \<times> u32" where
  "best_so_far entries max_height j =
     snd (FindBestMediaType_loop 0 (take j entries) max_height (None, 0, 0))"

definition passes :: "media_type_entry list \<Rightarrow> u32 \<Rightarrow> nat \<Rightarrow> bool" where
  "passes entries max_height j =
     (j < length entries \<and> improves max_height (best_so_far entries max_height j) (entries ! j))"

subsection \<open>An invariant of the capture controller\<close>

text \<open>
  What holds of a controller that was built for a listener, after any sequence of its
  member functions: the listener is there; the handlers exist only while the engine is
  initialized; an initialized engine has a texture id that is not negative; and the
  engine object exists unless the controller is not initialized.
\<close>

definition controller_wf :: "CaptureControllerImpl \<Rightarrow> bool" where
  "controller_wf c =
     (capture_controller_listener c
      \<and> (capture_engine_state c \<noteq> CAPTURE_ENGINE_INITIALIZED
           \<longrightarrow> record_handler c = None \<and> preview_handler c = None \<and> photo_handler c = None)
      \<and> (capture_engine_state c = CAPTURE_ENGINE_INITIALIZED \<longrightarrow> 0 \<le> texture_id c)
      \<and> (capture_engine_state c \<noteq> CAPTURE_ENGINE_NOT_INITIALIZED \<longrightarrow> capture_engine c))"

subsection \<open>Example states\<close>

definition camera_with_pending_picture :: CameraImpl where
  "camera_with_pending_picture =
     \<lparr>device_id = ''camera0'', camera_id = 1, messenger = True,
      pending_results = [TAKE_PICTURE \<mapsto> 7], host_bridge = []\<rparr>"

definition camera_being_created :: CameraImpl where
  "camera_being_created =
     \<lparr>device_id = ''camera0'', camera_id = - 1, messenger = True,
      pending_results = [CREATE_CAMERA \<mapsto> 1], host_bridge = []\<rparr>"

definition all_succeed :: native_results where
  "all_succeed =
     \<lparr>hr_MFStartup = 0, hr_CreateEngineInstance = 0, hr_CreateD3DManager = 0,
      hr_CreateVideoSource = 0, hr_CreateAudioSource = 0, hr_EngineAttributes = 0,
      hr_EngineInitialize = 0, new_texture_id = 1, hr_GetSource = 0,
      preview_stream_types = [Some (640, 480), Some (1280, 720)],
      record_stream_types = [Some (1280, 720)],
      sink_calls = \<lparr>hr_GetSink = 0, hr_As = 0, hr_RemoveAllStreams = 0, hr_BuildMediaType = 0,
                     hr_AddStream = 0, hr_SetSampleCallback = 0\<rparr>,
      hr_StartPreview = 0, hr_StopPreview = 0, hr_StartRecord = 0, hr_StopRecord = 0,
      hr_TakePhoto = 0\<rparr>"

definition initializing_controller :: CaptureControllerImpl where
  "initializing_controller =
     (new_CaptureControllerImpl True)
       \<lparr>capture_engine_state := CAPTURE_ENGINE_INITIALIZING, media_foundation_started := True,
        capture_engine_callback_handler := True, capture_engine := True,
        texture_registrar := True, video_device_id := ''camera0''\<rparr>"

definition initialized_controller :: CaptureControllerImpl where
  "initialized_controller =
     initializing_controller
       \<lparr>capture_engine_state := CAPTURE_ENGINE_INITIALIZED, texture_id := 1\<rparr>"

definition timed_recording :: RecordHandler where
  "timed_recording =
     \<lparr>rh_record_audio = False, recording_state = RECORD_STATE__STARTED,
      recording_type = RECORDING_TYPE__TIMED, record_path = ''clip.mp4'',
      max_video_duration_ms = 5000, recording_start_timestamp_us = Some 0,
      recording_duration_us = 5000001\<rparr>"

definition engine_initialized_event :: media_event where
  "engine_initialized_event =
     \<lparr>extended_type = Some MF_CAPTURE_ENGINE_INITIALIZED, status = Some 0,
      status_message = []\<rparr>"

definition error_event :: media_event where
  "error_event =
     \<lparr>extended_type = Some MF_CAPTURE_ENGINE_ERROR, status = Some (- 1),
      status_message = ''Unspecified error''\<rparr>"

definition record_stopped_event :: "hresult \<Rightarrow> media_event" where
  "record_stopped_event hr =
     \<lparr>extended_type = Some MF_CAPTURE_ENGINE_RECORD_STOPPED, status = Some hr,
      status_message = ''Unspecified error''\<rparr>"


definition starting_preview :: PreviewHandler where
  "starting_preview = \<lparr>preview_state = PREVIEW_STATE__STARTING, preview_sink = True\<rparr>"

text \<open>
  A device with a preview format and no format on the record stream, and one whose only
  preview format is 1280 x 720.
\<close>

definition preview_only_device :: native_results where
  "preview_only_device =
     all_succeed\<lparr>preview_stream_types := [Some (640, 480)], record_stream_types := []\<rparr>"

definition high_only_device :: native_results where
  "high_only_device = all_succeed\<lparr>preview_stream_types := [Some (1280, 720)]\<rparr>"

definition medium_controller :: CaptureControllerImpl where
  "medium_controller = initialized_controller\<lparr>resolution_preset := RESOLUTION_PRESET_MEDIUM\<rparr>"

text \<open>
  A controller that holds a raw frame of one pixel and one that holds a raw frame of two
  pixels, both with a preview frame of 2 x 1.
\<close>

definition one_pixel_frame :: CaptureControllerImpl where
  "one_pixel_frame =
     initialized_controller
       \<lparr>source_buffer_data := Some [10, 20, 30, 0], source_buffer_size := 4,
        preview_frame_width := 2, preview_frame_height := 1\<rparr>"

definition two_pixel_frame :: CaptureControllerImpl where
  "two_pixel_frame =
     initialized_controller
       \<lparr>source_buffer_data := Some [10, 20, 30, 0, 40, 50, 60, 0], source_buffer_size := 8,
        preview_frame_width := 2, preview_frame_height := 1\<rparr>"

definition camera_with_two_pending :: CameraImpl where
  "camera_with_two_pending =
     \<lparr>device_id = ''camera0'', camera_id = 1, messenger = True,
      pending_results = [TAKE_PICTURE \<mapsto> 7, STOP_RECORD \<mapsto> 3], host_bridge = []\<rparr>"

definition recording_controller :: CaptureControllerImpl where
  "recording_controller =
     initialized_controller
       \<lparr>record_handler := Some timed_recording, preview_handler := Some starting_preview\<rparr>"

section \<open>Properties\<close>

subsection \<open>The example states are reached by the code\<close>

lemma initializing_controller_reached:
  "InitCaptureDevice all_succeed True ''camera0'' False RESOLUTION_PRESET_AUTO
     (new_CaptureControllerImpl True) = Inr initializing_controller"
  by (simp add: InitCaptureDevice_def CreateCaptureEngine_def and_then_def all_succeed_def
      new_CaptureControllerImpl_def initializing_controller_def FAILED_def Let_def)

lemma initialized_controller_reached:
  "OnEvent all_succeed engine_initialized_event initializing_controller =
     Inr (initialized_controller\<lparr>listener_calls := [Call_OnCreateCaptureEngineSucceeded 1]\<rparr>)"
  by (simp add: OnEvent_def engine_initialized_event_def OnCaptureEngineInitialized_def
      initialized_controller_def initializing_controller_def new_CaptureControllerImpl_def
      all_succeed_def notify_def FAILED_def SUCCEEDED_def)

lemma frame_buffer_reached:
  "source_buffer_data (GetFrameBuffer 4 initialized_controller) = Some [0, 0, 0, 0]
   \<and> source_buffer_size (GetFrameBuffer 4 initialized_controller) = 4"
proof -
  have r: "replicate 4 (0 :: u8) = [0, 0, 0, 0]"
    by (simp add: numeral_eq_Suc)
  show ?thesis
    by (simp add: GetFrameBuffer_def initialized_controller_def initializing_controller_def
        new_CaptureControllerImpl_def r)
qed

subsection \<open>The map of pending results\<close>

lemma pending_entries_Nil_iff: "pending_entries m = [] \<longleftrightarrow> (\<forall>t. m t = None)"
proof
  assume h: "pending_entries m = []"
  show "\<forall>t. m t = None"
  proof
    fix t
    from h show "m t = None"
      by (cases t) (auto simp: pending_entries_def all_PendingResultTypes_def split: option.splits)
  qed
next
  assume "\<forall>t. m t = None"
  then show "pending_entries m = []"
    by (simp add: pending_entries_def all_PendingResultTypes_def)
qed

lemma GetPendingResultByType_eq:
  "GetPendingResultByType type cam =
     (case pending_results cam type of
        None \<Rightarrow> (cam, None)
      | Some r \<Rightarrow> (cam\<lparr>pending_results := (pending_results cam)(type := None)\<rparr>, Some r))"
  by (auto simp: GetPendingResultByType_def pending_entries_Nil_iff split: option.splits)

lemma resolve_eq:
  "resolve type answer cam =
     (case pending_results cam type of
        None \<Rightarrow> cam
      | Some r \<Rightarrow> cam\<lparr>pending_results := (pending_results cam)(type := None),
                      host_bridge := host_bridge cam @ [answer r]\<rparr>)"
  by (simp add: resolve_def GetPendingResultByType_eq reply_def split: option.splits)

lemma foldl_reply:
  "foldl (\<lambda>c p. reply (f p) c) cam xs = cam\<lparr>host_bridge := host_bridge cam @ map f xs\<rparr>"
  by (induction xs arbitrary: cam) (simp_all add: reply_def)

lemma SendErrorForPendingResults_eq:
  "SendErrorForPendingResults error_id description cam =
     cam\<lparr>host_bridge := host_bridge cam
            @ map (\<lambda>p. ResultError (snd p) error_id description)
                (pending_entries (pending_results cam)),
         pending_results := Map.empty\<rparr>"
  by (simp add: SendErrorForPendingResults_def foldl_reply)

lemmas listener_defs =
  OnCreateCaptureEngineSucceeded_def OnCreateCaptureEngineFailed_def
  OnStartPreviewSucceeded_def OnStartPreviewFailed_def
  OnResumePreviewSucceeded_def OnResumePreviewFailed_def
  OnPausePreviewSucceeded_def OnPausePreviewFailed_def
  OnStartRecordSucceeded_def OnStartRecordFailed_def
  OnStopRecordSucceeded_def OnStopRecordFailed_def
  OnTakePictureSucceeded_def OnTakePictureFailed_def
  OnVideoRecordSucceeded_def OnCaptureError_def

text \<open>
  An answer sent to some other reply channel does not change what a later callback does:
  it leaves the same pending results and sends the same answers, after the one already
  sent.
\<close>

lemma deliver_after_reply:
  "pending_results (deliver call (reply e cam)) = pending_results (deliver call cam)
   \<and> host_bridge (deliver call (reply e cam)) =
       host_bridge cam @ e # drop (length (host_bridge cam)) (host_bridge (deliver call cam))"
  by (cases call)
     (simp_all add: listener_defs OnVideoRecordFailed_def resolve_eq reply_def
        SendErrorForPendingResults_eq split: option.splits)

text \<open>
  C1. A request of a kind that already has a pending result is answered at once with
  the error "Duplicate request", \<open>AddPendingResult\<close> returns false, and the map
  of pending results is as before: the slot of the first request still holds the first
  reply channel, \<open>GetPendingResultByType\<close> still hands it out, and every listener
  callback delivered afterwards leaves the same pending results and sends the same
  answers as it would have without the second request.
\<close>

theorem AddPendingResult_duplicate_rejected:
  assumes "pending_results cam type = Some first"
  shows "AddPendingResult type second cam =
           (cam\<lparr>host_bridge := host_bridge cam
               @ [ResultError second ''Duplicate request'' ''Method handler already called'']\<rparr>,
            False)
         \<and> pending_results (fst (AddPendingResult type second cam)) = pending_results cam
         \<and> snd (GetPendingResultByType type (fst (AddPendingResult type second cam))) = Some first
         \<and> pending_results (deliver call (fst (AddPendingResult type second cam))) =
             pending_results (deliver call cam)
         \<and> host_bridge (deliver call (fst (AddPendingResult type second cam))) =
             host_bridge cam
             @ ResultError second ''Duplicate request'' ''Method handler already called''
             # drop (length (host_bridge cam)) (host_bridge (deliver call cam))"
proof -
  let ?e = "ResultError second ''Duplicate request'' ''Method handler already called''"
  have a: "AddPendingResult type second cam = (reply ?e cam, False)"
    using assms by (simp add: AddPendingResult_def)
  have b: "reply ?e cam = cam\<lparr>host_bridge := host_bridge cam @ [?e]\<rparr>"
    by (simp add: reply_def)
  have c: "snd (GetPendingResultByType type (reply ?e cam)) = Some first"
    using assms by (simp add: GetPendingResultByType_eq reply_def)
  show ?thesis
    using a b c deliver_after_reply [of call ?e cam] by simp
qed

theorem AddPendingResult_duplicate_rejected_witness:
  "pending_results camera_with_pending_picture TAKE_PICTURE = Some 7
   \<and> snd (AddPendingResult TAKE_PICTURE 8 camera_with_pending_picture) = False
   \<and> host_bridge (fst (AddPendingResult TAKE_PICTURE 8 camera_with_pending_picture)) =
       [ResultError 8 ''Duplicate request'' ''Method handler already called'']
   \<and> pending_results (fst (AddPendingResult TAKE_PICTURE 8 camera_with_pending_picture))
       TAKE_PICTURE = Some 7
   \<and> host_bridge (deliver (Call_OnTakePictureSucceeded ''a.jpeg'')
       (fst (AddPendingResult TAKE_PICTURE 8 camera_with_pending_picture))) =
       [ResultError 8 ''Duplicate request'' ''Method handler already called'',
        ResultSuccess 7 (Some (EString ''a.jpeg''))]"
proof -
  have h: "pending_results camera_with_pending_picture TAKE_PICTURE = Some 7"
    by (simp add: camera_with_pending_picture_def)
  have d: "host_bridge (deliver (Call_OnTakePictureSucceeded ''a.jpeg'') camera_with_pending_picture)
             = [ResultSuccess 7 (Some (EString ''a.jpeg''))]"
    by (simp add: camera_with_pending_picture_def OnTakePictureSucceeded_def resolve_eq)
  have e: "host_bridge camera_with_pending_picture = []"
    by (simp add: camera_with_pending_picture_def)
  note t = AddPendingResult_duplicate_rejected
             [OF h, of 8 "Call_OnTakePictureSucceeded ''a.jpeg''"]
  have 1: "snd (AddPendingResult TAKE_PICTURE 8 camera_with_pending_picture) = False"
    using t [THEN conjunct1] by simp
  have 2: "host_bridge (fst (AddPendingResult TAKE_PICTURE 8 camera_with_pending_picture)) =
             [ResultError 8 ''Duplicate request'' ''Method handler already called'']"
    using t [THEN conjunct1] e by simp
  have 3: "pending_results (fst (AddPendingResult TAKE_PICTURE 8 camera_with_pending_picture))
             TAKE_PICTURE = Some 7"
    using t [THEN conjunct2, THEN conjunct1] h by simp
  have 4: "host_bridge (deliver (Call_OnTakePictureSucceeded ''a.jpeg'')
             (fst (AddPendingResult TAKE_PICTURE 8 camera_with_pending_picture))) =
             [ResultError 8 ''Duplicate request'' ''Method handler already called'',
              ResultSuccess 7 (Some (EString ''a.jpeg''))]"
    using t [THEN conjunct2, THEN conjunct2, THEN conjunct2, THEN conjunct2] d e by simp
  show ?thesis
    using h 1 2 3 4 by blast
qed

lemma all_PendingResultTypes_UNIV: "set all_PendingResultTypes = UNIV"
proof -
  have "t \<in> set all_PendingResultTypes" for t
    by (cases t) (simp_all add: all_PendingResultTypes_def)
  then show ?thesis by blast
qed

lemma distinct_all_PendingResultTypes: "distinct all_PendingResultTypes"
  by (simp add: all_PendingResultTypes_def)

lemma entries_of_list:
  "set (concat (map (\<lambda>t. case m t of None \<Rightarrow> [] | Some r \<Rightarrow> [(t, r)]) ts)) =
     {(t, r). t \<in> set ts \<and> m t = Some r}"
  by (induction ts) (auto split: option.splits)

lemma keys_of_list:
  "map fst (concat (map (\<lambda>t. case m t of None \<Rightarrow> [] | Some r \<Rightarrow> [(t, r)]) ts)) =
     filter (\<lambda>t. m t \<noteq> None) ts"
  by (induction ts) (auto split: option.splits)

lemma set_pending_entries: "set (pending_entries m) = {(t, r). m t = Some r}"
  unfolding pending_entries_def entries_of_list all_PendingResultTypes_UNIV by simp

lemma distinct_pending_entries: "distinct (map fst (pending_entries m))"
  by (simp add: pending_entries_def keys_of_list distinct_all_PendingResultTypes)

lemma length_pending_entries: "length (pending_entries m) = card (dom m)"
proof -
  have "card (set (map fst (pending_entries m))) = length (map fst (pending_entries m))"
    by (rule distinct_card [OF distinct_pending_entries])
  moreover have "set (map fst (pending_entries m)) = dom m"
    by (force simp: set_pending_entries dom_def)
  ultimately show ?thesis by simp
qed

subsection \<open>Pipeline errors\<close>

text \<open>
  C4, at the input that refutes it. A camera that waits for its creation still has the
  camera id -1. An error event of the pipeline reaches it while the controller is
  initializing: the pending creation is failed with "capture\_error", and no "error"
  notification is pushed to the host bridge.
\<close>

theorem OnCaptureError_before_creation_counterexample:
  "map_sum id (host_bridge \<circ> fst)
     (with_listener (OnEvent all_succeed error_event)
        (camera_being_created, initializing_controller)) =
     Inr [ResultError 1 ''capture_error'' ''Unspecified error'']"
  by (simp add: with_listener_def OnEvent_def error_event_def initializing_controller_def
      new_CaptureControllerImpl_def camera_being_created_def FAILED_def and_then_def
      OnCaptureEngineError_def notify_def deliver_all_def OnCaptureError_def
      SendErrorForPendingResults_eq pending_entries_def all_PendingResultTypes_def)

text \<open>
  C4, amended. The router hands an error event to the listener when the controller is
  initializing or initialized and has a listener. \<open>OnCaptureError\<close> then
  pushes one "error" notification to the host bridge if the camera has a messenger and a
  camera id that is not negative, and none otherwise; in both cases it fails every pending
  result, of every kind, once, with "capture\_error", and leaves no pending result.
\<close>

theorem OnCaptureError_effect:
  "OnEvent env \<lparr>extended_type = Some MF_CAPTURE_ENGINE_ERROR, status = Some hr,
                 status_message = msg\<rparr> c =
     Inr (if (capture_engine_state c = CAPTURE_ENGINE_INITIALIZED
              \<or> capture_engine_state c = CAPTURE_ENGINE_INITIALIZING)
             \<and> capture_controller_listener c
          then notify (Call_OnCaptureError (if FAILED hr then msg else [])) c
          else c)
   \<and> deliver (Call_OnCaptureError error) cam = OnCaptureError error cam
   \<and> host_bridge (OnCaptureError error cam) =
       host_bridge cam
       @ (if messenger cam \<and> 0 \<le> camera_id cam
          then [InvokeMethod (camera_id cam) ''error''
                  (EMap [(EString ''description'', EString error)])]
          else [])
       @ map (\<lambda>p. ResultError (snd p) ''capture_error'' error)
           (pending_entries (pending_results cam))
   \<and> pending_results (OnCaptureError error cam) = Map.empty
   \<and> set (pending_entries (pending_results cam)) = {(t, r). pending_results cam t = Some r}
   \<and> distinct (map fst (pending_entries (pending_results cam)))"
proof -
  have "OnEvent env \<lparr>extended_type = Some MF_CAPTURE_ENGINE_ERROR, status = Some hr,
                      status_message = msg\<rparr> c =
     Inr (if (capture_engine_state c = CAPTURE_ENGINE_INITIALIZED
              \<or> capture_engine_state c = CAPTURE_ENGINE_INITIALIZING)
             \<and> capture_controller_listener c
          then notify (Call_OnCaptureError (if FAILED hr then msg else [])) c
          else c)"
    by (simp add: OnEvent_def OnCaptureEngineError_def)
  moreover have "host_bridge (OnCaptureError error cam) =
       host_bridge cam
       @ (if messenger cam \<and> 0 \<le> camera_id cam
          then [InvokeMethod (camera_id cam) ''error''
                  (EMap [(EString ''description'', EString error)])]
          else [])
       @ map (\<lambda>p. ResultError (snd p) ''capture_error'' error)
           (pending_entries (pending_results cam))"
    by (simp add: OnCaptureError_def SendErrorForPendingResults_eq reply_def kErrorEvent_def)
  moreover have "pending_results (OnCaptureError error cam) = Map.empty"
    by (simp add: OnCaptureError_def SendErrorForPendingResults_eq)
  ultimately show ?thesis
    by (simp add: set_pending_entries distinct_pending_entries)
qed

theorem OnCaptureError_effect_witness:
  "host_bridge (OnCaptureError ''lost'' camera_with_pending_picture) =
     [InvokeMethod 1 ''error'' (EMap [(EString ''description'', EString ''lost'')]),
      ResultError 7 ''capture_error'' ''lost'']
   \<and> pending_results (OnCaptureError ''lost'' camera_with_pending_picture) = Map.empty"
proof -
  have e: "pending_entries (pending_results camera_with_pending_picture) = [(TAKE_PICTURE, 7)]"
    by (simp add: camera_with_pending_picture_def pending_entries_def all_PendingResultTypes_def)
  have f: "host_bridge camera_with_pending_picture = []
           \<and> messenger camera_with_pending_picture
           \<and> camera_id camera_with_pending_picture = 1"
    by (simp add: camera_with_pending_picture_def)
  show ?thesis
    using OnCaptureError_effect [of all_succeed 0 "[]" initialized_controller "''lost''"
            camera_with_pending_picture] e f
    by simp
qed

subsection \<open>Stopping a recording\<close>

lemma StopRecord_guard_never_true: "StopRecord_guard c \<noteq> Inr True"
  by (simp add: StopRecord_guard_def deref_def and_then_def)

lemma StopRecord_never_reports_cannot_stop:
  assumes "StopRecord env c = Inr c1"
  shows "listener_calls c1 = listener_calls c
         \<or> (\<exists>error. error \<noteq> ''Recording cannot be stopped.''
              \<and> (listener_calls c1 = listener_calls c @ [Call_OnStopRecordFailed error]
                 \<or> listener_calls c1 =
                     listener_calls c @ [Call_OnStopRecordFailed error, Call_OnVideoRecordFailed error]))"
  using assms
  by (auto simp: StopRecord_def StopRecord_guard_def deref_def and_then_def OnRecordStopped_def
      OnRecordStopped_notify_def notify_def Let_def
      split: if_splits option.splits prod.splits)

text \<open>
  C3, at the failing input. In an initialized controller without a record handler,
  \<open>StopRecord\<close> calls \<^verbatim>\<open>CanStop\<close> through the null handler pointer. With a
  handler that exists and cannot stop (it is idle), the test is false: the controller
  goes on to the handler's own stop, and the listener is told nothing.
\<close>

theorem StopRecord_without_handler:
  "StopRecord all_succeed initialized_controller = Inl NullDereference
   \<and> map_sum id listener_calls
       (StopRecord all_succeed
          (initialized_controller\<lparr>record_handler := Some (new_RecordHandler False)\<rparr>)) = Inr []"
  by (simp add: StopRecord_def StopRecord_guard_def deref_def and_then_def
      initialized_controller_def initializing_controller_def new_CaptureControllerImpl_def
      new_RecordHandler_def RecordHandler_StopRecord_def CanStop_def OnRecordStopped_def
      OnRecordStopped_notify_def)

lemma StopTimedRecord_result:
  assumes "capture_controller_listener c"
  shows "\<exists>c1. StopTimedRecord env c = Inr c1
           \<and> preview_handler c1 = preview_handler c
           \<and> capture_engine_state c1 = capture_engine_state c
           \<and> capture_controller_listener c1
           \<and> (listener_calls c1 = listener_calls c
              \<or> listener_calls c1 =
                  listener_calls c @ [Call_OnVideoRecordFailed ''Failed to record video''])"
  using assms
  by (auto simp: StopTimedRecord_def notify_unchecked_def notify_def
      split: option.splits prod.splits)

lemma OnRecordStopped_calls:
  "listener_calls (OnRecordStopped success error c) =
     listener_calls (OnRecordStopped_notify success error c)"
  by (simp add: OnRecordStopped_def Let_def split: option.splits)

lemma OnRecordStopped_notifications:
  assumes "capture_controller_listener c" and "record_handler c = Some rh"
  shows "listener_calls (OnRecordStopped success error c) =
           listener_calls c
           @ (if success then Call_OnStopRecordSucceeded (GetRecordPath rh)
              else Call_OnStopRecordFailed error)
           # (if \<not> IsTimedRecording rh then []
              else if success
              then [Call_OnVideoRecordSucceeded (GetRecordPath rh)
                      (int (GetRecordedDuration rh div 1000))]
              else [Call_OnVideoRecordFailed error])"
  using assms
  by (simp add: OnRecordStopped_calls OnRecordStopped_notify_def notify_def Let_def)



subsection \<open>A timed recording that fails\<close>

lemma resolve_nothing_pending:
  "pending_results cam type = None \<Longrightarrow> resolve type answer cam = cam"
  by (simp add: resolve_eq)

text \<open>
  C10, at the input that refutes it. A timed recording is active and a stop request is
  pending. The record-stopped event arrives with a failure status: the video-record
  callback sends nothing, but the pending stop request is failed with "camera\_error",
  which the host bridge observes.
\<close>

theorem timed_record_failure_with_stop_pending_counterexample:
  "record_handler recording_controller = Some timed_recording
   \<and> IsTimedRecording timed_recording
   \<and> pending_results camera_with_two_pending STOP_RECORD = Some 3
   \<and> host_bridge camera_with_two_pending = []
   \<and> map_sum id (host_bridge \<circ> fst)
       (with_listener (OnEvent all_succeed (record_stopped_event (- 1)))
          (camera_with_two_pending, recording_controller)) =
     Inr [ResultError 3 ''camera_error'' ''Unspecified error'']"
  by (simp add: with_listener_def OnEvent_def record_stopped_event_def and_then_def
      recording_controller_def initialized_controller_def initializing_controller_def
      new_CaptureControllerImpl_def camera_with_two_pending_def timed_recording_def
      IsTimedRecording_def GetRecordPath_def FAILED_def SUCCEEDED_def OnRecordStopped_def
      OnRecordStopped_notify_def notify_def Let_def deliver_all_def OnStopRecordFailed_def
      OnVideoRecordFailed_def resolve_eq)

text \<open>
  C10, amended. \<open>OnVideoRecordFailed\<close> returns the camera as it was,
  whatever the error: nothing is sent to the host bridge and no pending result is
  touched. So when the automatic stop of a timed recording fails in
  \<open>StopTimedRecord\<close>, the camera, its host bridge included, is left as it was.
  When the record-stopped event of a timed recording reports a failure, the listener is
  called on the stop-record channel and then on the video-record channel, and the camera
  is left exactly as \<open>OnStopRecordFailed\<close> leaves it: unchanged while no stop
  request is pending, and otherwise with that request taken out of the map and failed
  with "camera\_error".
\<close>

theorem timed_record_failure_at_host_bridge:
  "OnVideoRecordFailed error cam = cam
   \<and> deliver (Call_OnVideoRecordFailed error) cam = cam
   \<and> (capture_controller_listener c \<and> record_handler c = Some rh \<and> IsTimedRecording rh
        \<and> \<not> snd (RecordHandler_StopRecord (hr_StopRecord env) rh)
      \<longrightarrow> map_sum id (\<lambda>session. (fst session, listener_calls (snd session)))
            (with_listener (StopTimedRecord env) (cam, c)) =
          Inr (cam, [Call_OnVideoRecordFailed ''Failed to record video'']))
   \<and> (capture_controller_listener c \<and> record_handler c = Some rh \<and> IsTimedRecording rh
      \<longrightarrow> map_sum id (\<lambda>session. (fst session, listener_calls (snd session)))
            (with_listener (\<lambda>c. Inr (OnRecordStopped False error c)) (cam, c)) =
          Inr (case pending_results cam STOP_RECORD of
                 None \<Rightarrow> cam
               | Some pending_result \<Rightarrow>
                   cam\<lparr>pending_results := (pending_results cam)(STOP_RECORD := None),
                       host_bridge := host_bridge cam
                         @ [ResultError pending_result ''camera_error'' error]\<rparr>,
               [Call_OnStopRecordFailed error, Call_OnVideoRecordFailed error]))"
proof -
  have a: "OnVideoRecordFailed error cam = cam"
    by (simp add: OnVideoRecordFailed_def)
  have b: "map_sum id (\<lambda>session. (fst session, listener_calls (snd session)))
            (with_listener (StopTimedRecord env) (cam, c)) =
          Inr (cam, [Call_OnVideoRecordFailed ''Failed to record video''])"
    if "capture_controller_listener c" "record_handler c = Some rh" "IsTimedRecording rh"
       "\<not> snd (RecordHandler_StopRecord (hr_StopRecord env) rh)"
    using that
    by (cases "RecordHandler_StopRecord (hr_StopRecord env) rh")
       (simp add: with_listener_def StopTimedRecord_def and_then_def notify_unchecked_def
          notify_def deliver_all_def OnVideoRecordFailed_def)
  have c: "map_sum id (\<lambda>session. (fst session, listener_calls (snd session)))
            (with_listener (\<lambda>c. Inr (OnRecordStopped False error c)) (cam, c)) =
          Inr (case pending_results cam STOP_RECORD of
                 None \<Rightarrow> cam
               | Some pending_result \<Rightarrow>
                   cam\<lparr>pending_results := (pending_results cam)(STOP_RECORD := None),
                       host_bridge := host_bridge cam
                         @ [ResultError pending_result ''camera_error'' error]\<rparr>,
               [Call_OnStopRecordFailed error, Call_OnVideoRecordFailed error])"
    if "capture_controller_listener c" "record_handler c = Some rh" "IsTimedRecording rh"
  proof -
    have "listener_calls (OnRecordStopped False error (c\<lparr>listener_calls := []\<rparr>)) =
            [Call_OnStopRecordFailed error, Call_OnVideoRecordFailed error]"
      using that
        OnRecordStopped_notifications [of "c\<lparr>listener_calls := []\<rparr>" rh False error]
      by simp
    then show ?thesis
      by (simp add: with_listener_def and_then_def deliver_all_def OnStopRecordFailed_def
          OnVideoRecordFailed_def resolve_eq)
  qed
  show ?thesis using a b c by simp
qed

theorem timed_record_failure_at_host_bridge_witness:
  "map_sum id (\<lambda>session. (fst session, listener_calls (snd session)))
     (with_listener (StopTimedRecord (all_succeed\<lparr>hr_StopRecord := E_FAIL\<rparr>))
        (camera_with_two_pending, recording_controller)) =
     Inr (camera_with_two_pending, [Call_OnVideoRecordFailed ''Failed to record video''])
   \<and> map_sum id (\<lambda>session. (host_bridge (fst session), listener_calls (snd session)))
       (with_listener (\<lambda>c. Inr (OnRecordStopped False ''lost'' c))
          (camera_with_two_pending, recording_controller)) =
     Inr ([ResultError 3 ''camera_error'' ''lost''],
          [Call_OnStopRecordFailed ''lost'', Call_OnVideoRecordFailed ''lost''])
   \<and> map_sum id (\<lambda>session. (fst session, listener_calls (snd session)))
       (with_listener (\<lambda>c. Inr (OnRecordStopped False ''lost'' c))
          (camera_with_pending_picture, recording_controller)) =
     Inr (camera_with_pending_picture,
          [Call_OnStopRecordFailed ''lost'', Call_OnVideoRecordFailed ''lost''])"
proof -
  let ?env = "all_succeed\<lparr>hr_StopRecord := E_FAIL\<rparr>"
  have 1: "capture_controller_listener recording_controller"
    by (simp add: recording_controller_def initialized_controller_def
        initializing_controller_def new_CaptureControllerImpl_def)
  have 2: "record_handler recording_controller = Some timed_recording"
    by (simp add: recording_controller_def)
  have 3: "IsTimedRecording timed_recording"
    by (simp add: timed_recording_def IsTimedRecording_def)
  have 4: "\<not> snd (RecordHandler_StopRecord (hr_StopRecord ?env) timed_recording)"
    by (simp add: RecordHandler_StopRecord_def CanStop_def timed_recording_def SUCCEEDED_def
        E_FAIL_def)
  have 5: "pending_results camera_with_two_pending STOP_RECORD = Some 3"
          "host_bridge camera_with_two_pending = []"
    by (simp_all add: camera_with_two_pending_def)
  have 6: "pending_results camera_with_pending_picture STOP_RECORD = None"
    by (simp add: camera_with_pending_picture_def)
  note t = timed_record_failure_at_host_bridge
             [of "''lost''" camera_with_two_pending recording_controller timed_recording ?env]
  note u = timed_record_failure_at_host_bridge
             [of "''lost''" camera_with_pending_picture recording_controller timed_recording ?env]
  have a: "map_sum id (\<lambda>session. (fst session, listener_calls (snd session)))
     (with_listener (StopTimedRecord ?env) (camera_with_two_pending, recording_controller)) =
     Inr (camera_with_two_pending, [Call_OnVideoRecordFailed ''Failed to record video''])"
    using t 1 2 3 4 by blast
  have "map_sum id (\<lambda>session. (fst session, listener_calls (snd session)))
       (with_listener (\<lambda>c. Inr (OnRecordStopped False ''lost'' c))
          (camera_with_two_pending, recording_controller)) =
     Inr (case pending_results camera_with_two_pending STOP_RECORD of
            None \<Rightarrow> camera_with_two_pending
          | Some pending_result \<Rightarrow>
              camera_with_two_pending
                \<lparr>pending_results := (pending_results camera_with_two_pending)(STOP_RECORD := None),
                 host_bridge := host_bridge camera_with_two_pending
                   @ [ResultError pending_result ''camera_error'' ''lost'']\<rparr>,
          [Call_OnStopRecordFailed ''lost'', Call_OnVideoRecordFailed ''lost''])"
    using t 1 2 3 by blast
  then have b: "map_sum id (\<lambda>session. (host_bridge (fst session), listener_calls (snd session)))
       (with_listener (\<lambda>c. Inr (OnRecordStopped False ''lost'' c))
          (camera_with_two_pending, recording_controller)) =
     Inr ([ResultError 3 ''camera_error'' ''lost''],
          [Call_OnStopRecordFailed ''lost'', Call_OnVideoRecordFailed ''lost''])"
    using 5
    by (cases "with_listener (\<lambda>c. Inr (OnRecordStopped False ''lost'' c))
                 (camera_with_two_pending, recording_controller)") auto
  have "map_sum id (\<lambda>session. (fst session, listener_calls (snd session)))
       (with_listener (\<lambda>c. Inr (OnRecordStopped False ''lost'' c))
          (camera_with_pending_picture, recording_controller)) =
     Inr (case pending_results camera_with_pending_picture STOP_RECORD of
            None \<Rightarrow> camera_with_pending_picture
          | Some pending_result \<Rightarrow>
              camera_with_pending_picture
                \<lparr>pending_results :=
                   (pending_results camera_with_pending_picture)(STOP_RECORD := None),
                 host_bridge := host_bridge camera_with_pending_picture
                   @ [ResultError pending_result ''camera_error'' ''lost'']\<rparr>,
          [Call_OnStopRecordFailed ''lost'', Call_OnVideoRecordFailed ''lost''])"
    using u 1 2 3 by blast
  then have c: "map_sum id (\<lambda>session. (fst session, listener_calls (snd session)))
       (with_listener (\<lambda>c. Inr (OnRecordStopped False ''lost'' c))
          (camera_with_pending_picture, recording_controller)) =
     Inr (camera_with_pending_picture,
          [Call_OnStopRecordFailed ''lost'', Call_OnVideoRecordFailed ''lost''])"
    using 6 by simp
  show ?thesis using a b c by blast
qed

subsection \<open>Pausing and resuming the preview\<close>

lemma PreviewHandler_PausePreview_result:
  "PreviewHandler_PausePreview p =
     (if preview_state p = PREVIEW_STATE__RUNNING
      then (p\<lparr>preview_state := PREVIEW_STATE__PAUSED\<rparr>, True) else (p, False))"
  by (simp add: PreviewHandler_PausePreview_def)

lemma PreviewHandler_ResumePreview_result:
  "PreviewHandler_ResumePreview p =
     (if preview_state p = PREVIEW_STATE__PAUSED
      then (p\<lparr>preview_state := PREVIEW_STATE__RUNNING\<rparr>, True) else (p, False))"
  by (simp add: PreviewHandler_ResumePreview_def)

lemma preview_not_started_never_true: "preview_not_started c \<noteq> Inr True"
  by (simp add: preview_not_started_def deref_def and_then_def)

lemma PausePreview_with_handler:
  assumes "capture_controller_listener c" and "preview_handler c = Some p"
  shows "PausePreview c =
           Inr (if preview_state p = PREVIEW_STATE__RUNNING
                then notify Call_OnPausePreviewSucceeded
                       (c\<lparr>preview_handler := Some (p\<lparr>preview_state := PREVIEW_STATE__PAUSED\<rparr>)\<rparr>)
                else notify (Call_OnPausePreviewFailed ''Failed to pause preview'')
                       (c\<lparr>preview_handler := Some p\<rparr>))"
  using assms
  by (simp add: PausePreview_def preview_not_started_def deref_def and_then_def
      PreviewHandler_PausePreview_result notify_unchecked_def notify_def)

lemma ResumePreview_with_handler:
  assumes "capture_controller_listener c" and "preview_handler c = Some p"
  shows "ResumePreview c =
           Inr (if preview_state p = PREVIEW_STATE__PAUSED
                then notify Call_OnResumePreviewSucceeded
                       (c\<lparr>preview_handler := Some (p\<lparr>preview_state := PREVIEW_STATE__RUNNING\<rparr>)\<rparr>)
                else notify (Call_OnResumePreviewFailed ''Failed to pause preview'')
                       (c\<lparr>preview_handler := Some p\<rparr>))"
  using assms
  by (simp add: ResumePreview_def preview_not_started_def deref_def and_then_def
      PreviewHandler_ResumePreview_result notify_unchecked_def notify_def)

text \<open>
  C8, at the failing input. In a controller that has no preview handler,
  \<open>PausePreview\<close> and \<open>ResumePreview\<close> call \<^verbatim>\<open>IsInitialized\<close>
  through the null handler pointer; neither reaches the failure callback with "Preview
  not started".
\<close>

theorem PausePreview_without_handler:
  "PausePreview initialized_controller = Inl NullDereference
   \<and> ResumePreview initialized_controller = Inl NullDereference"
  by (simp add: PausePreview_def ResumePreview_def preview_not_started_def deref_def
      and_then_def initialized_controller_def initializing_controller_def
      new_CaptureControllerImpl_def)

subsection \<open>The start of the preview\<close>




subsection \<open>The choice of the best media type\<close>

lemma FindBestMediaType_loop_append:
  "FindBestMediaType_loop i (xs @ ys) max_height best =
     FindBestMediaType_loop (i + length xs) ys max_height
       (FindBestMediaType_loop i xs max_height best)"
proof (induction xs arbitrary: i best)
  case Nil
  then show ?case by simp
next
  case (Cons x xs)
  obtain t w h where best: "best = (t, w, h)" by (cases best)
  show ?case using Cons.IH by (simp add: best)
qed

lemma FindBestMediaType_loop_single:
  "FindBestMediaType_loop i [entry] max_height (t, w, h) =
     (if improves max_height (w, h) entry then (Some i, the entry) else (t, w, h))"
  by (auto simp: improves_def split: option.splits)

lemma FindBestMediaType_loop_size:
  "snd (FindBestMediaType_loop i xs max_height (t, w, h)) =
     snd (FindBestMediaType_loop i' xs max_height (t', w, h))"
proof (induction xs arbitrary: i i' t t' w h)
  case Nil
  then show ?case by simp
next
  case (Cons x xs)
  show ?case
  proof (cases "improves max_height (w, h) x")
    case True
    then obtain fw fh where x: "x = Some (fw, fh)"
      by (auto simp: improves_def split: option.splits)
    with True show ?thesis
      using Cons.IH [of "Suc i" "Some i" fw fh "Suc i'" "Some i'"]
      by (simp add: improves_def)
  next
    case False
    then show ?thesis
      using Cons.IH [of "Suc i" t w h "Suc i'" t']
      by (auto simp: improves_def split: option.splits)
  qed
qed

lemma best_so_far_snoc:
  "j \<le> length xs \<Longrightarrow> best_so_far (xs @ ys) max_height j = best_so_far xs max_height j"
  by (simp add: best_so_far_def)

lemma passes_snoc:
  "j < length xs \<Longrightarrow> passes (xs @ ys) max_height j = passes xs max_height j"
  by (simp add: passes_def best_so_far_snoc nth_append)

lemma passes_length: "passes xs max_height j \<Longrightarrow> j < length xs"
  by (simp add: passes_def)

text \<open>
  What the loop leaves behind, by induction on the list from its end: the last entry
  that passed the test, or the state it started from when no entry passes.
\<close>

lemma FindBestMediaType_loop_last:
  assumes "FindBestMediaType_loop 0 entries max_height (target0, 0, 0) = (target, bw, bh)"
  shows "if \<exists>k. passes entries max_height k
         then \<exists>k. target = Some k \<and> passes entries max_height k
                \<and> entries ! k = Some (bw, bh)
                \<and> (\<forall>j. k < j \<longrightarrow> \<not> passes entries max_height j)
         else target = target0 \<and> bw = 0 \<and> bh = 0"
  using assms
proof (induction entries arbitrary: target bw bh rule: rev_induct)
  case Nil
  then show ?case by (simp add: passes_def)
next
  case (snoc e xs)
  obtain t w h where scan: "FindBestMediaType_loop 0 xs max_height (target0, 0, 0) = (t, w, h)"
    by (cases "FindBestMediaType_loop 0 xs max_height (target0, 0, 0)")
  note IH = snoc.IH [OF scan]
  have best: "best_so_far (xs @ [e]) max_height (length xs) = (w, h)"
    using FindBestMediaType_loop_size [of 0 xs max_height None 0 0 0 target0] scan
    by (simp add: best_so_far_def)
  have last: "passes (xs @ [e]) max_height (length xs) = improves max_height (w, h) e"
    by (simp add: passes_def best)
  have step: "(target, bw, bh) =
                (if improves max_height (w, h) e then (Some (length xs), the e) else (t, w, h))"
    using snoc.prems scan
    by (auto simp: FindBestMediaType_loop_append improves_def split: option.splits if_splits)
  have old: "passes (xs @ [e]) max_height j = passes xs max_height j" if "j < length xs" for j
    using that by (rule passes_snoc)
  have range: "j < length xs \<or> j = length xs" if "passes (xs @ [e]) max_height j" for j
    using passes_length [OF that] by auto
  show ?case
  proof (cases "improves max_height (w, h) e")
    case True
    then obtain fw fh where e: "e = Some (fw, fh)"
      by (auto simp: improves_def split: option.splits)
    have "target = Some (length xs)" "bw = fw" "bh = fh"
      using step True e by simp_all
    moreover have "passes (xs @ [e]) max_height (length xs)"
      using last True by simp
    moreover have "\<not> passes (xs @ [e]) max_height j" if "length xs < j" for j
      using that range [of j] by auto
    ultimately show ?thesis
      using e by auto
  next
    case False
    have same: "target = t" "bw = w" "bh = h"
      using step False by simp_all
    have nolast: "\<not> passes (xs @ [e]) max_height (length xs)"
      using last False by simp
    have iff: "(\<exists>k. passes (xs @ [e]) max_height k) = (\<exists>k. passes xs max_height k)"
      using old range nolast passes_length by metis
    show ?thesis
    proof (cases "\<exists>k. passes xs max_height k")
      case True
      then obtain k where k: "t = Some k" "passes xs max_height k" "xs ! k = Some (w, h)"
          "\<forall>j. k < j \<longrightarrow> \<not> passes xs max_height j"
        using IH by auto
      have kl: "k < length xs" using k(2) by (rule passes_length)
      have "passes (xs @ [e]) max_height k" using old [OF kl] k(2) by simp
      moreover have "(xs @ [e]) ! k = Some (w, h)" using kl k(3) by (simp add: nth_append)
      moreover have "\<not> passes (xs @ [e]) max_height j" if "k < j" for j
        using that k(4) old [of j] range [of j] nolast by auto
      ultimately show ?thesis
        using same k(1) iff True by auto
    next
      case False
      then show ?thesis using IH iff same by auto
    qed
  qed
qed

lemma no_candidate_no_pass:
  assumes "\<forall>j < length entries. \<forall>fw fh. entries ! j = Some (fw, fh) \<longrightarrow> \<not> fh \<le> max_height"
  shows "\<not> passes entries max_height k"
  using assms by (auto simp: passes_def improves_def split: option.splits)

text \<open>
  C5, at the failing input. A first resolution of the media types finds a preview
  format and no record format: it fails, and the preview slot stays filled. At the next
  resolution the only preview format, 1280 x 720, is above the cap 480 of the preset
  MEDIUM: no candidate satisfies the cap, and yet \<open>FindBestMediaType\<close> returns
  true, with a media type that this scan never selected and the frame size 0 x 0, and
  the resolution succeeds.
\<close>

theorem FindBestMediaType_stale_slot:
  "FindBestMediaType [Some (1280, 720)] 480 (Some 0) = (True, Some 0, 0, 0)
   \<and> snd (FindBaseMediaTypes preview_only_device medium_controller) = E_FAIL
   \<and> base_preview_media_type (fst (FindBaseMediaTypes preview_only_device medium_controller))
       = Some 0
   \<and> GetMaxPreviewHeight (fst (FindBaseMediaTypes preview_only_device medium_controller)) = 480
   \<and> snd (FindBaseMediaTypes high_only_device
             (fst (FindBaseMediaTypes preview_only_device medium_controller))) = S_OK
   \<and> base_preview_media_type
         (fst (FindBaseMediaTypes high_only_device
                (fst (FindBaseMediaTypes preview_only_device medium_controller)))) = Some 0
   \<and> preview_frame_width
         (fst (FindBaseMediaTypes high_only_device
                (fst (FindBaseMediaTypes preview_only_device medium_controller)))) = 0
   \<and> preview_frame_height
         (fst (FindBaseMediaTypes high_only_device
                (fst (FindBaseMediaTypes preview_only_device medium_controller)))) = 0"
  by (simp add: FindBestMediaType_def FindBaseMediaTypes_def preview_only_device_def
      high_only_device_def medium_controller_def all_succeed_def initialized_controller_def
      initializing_controller_def new_CaptureControllerImpl_def GetMaxPreviewHeight_def
      FAILED_def S_OK_def E_FAIL_def Let_def)

text \<open>
  What the function computes, for every list of candidates, every cap and every content
  of the slot. The caps of the presets are 240, 480, 720, 1080 and 2160, and no height
  exceeds the cap of AUTO. The function selects the last-scanned candidate whose height
  is at most the cap and whose width or height exceeds the best seen so far, and returns
  its size. When no candidate passes this test, the slot is as it was on entry, the size
  returned is 0 x 0, and the boolean returned tells whether the slot was filled on entry.
\<close>

lemma FindBestMediaType_selection:
  assumes "FindBestMediaType entries max_height target0 = (found, target, bw, bh)"
  shows "found = (target \<noteq> None)
         \<and> (if \<exists>k. passes entries max_height k
            then \<exists>k. target = Some k \<and> passes entries max_height k
                   \<and> entries ! k = Some (bw, bh) \<and> bh \<le> max_height
                   \<and> (\<forall>j. k < j \<longrightarrow> \<not> passes entries max_height j)
            else target = target0 \<and> bw = 0 \<and> bh = 0)
         \<and> ((\<forall>j < length entries. \<forall>fw fh. entries ! j = Some (fw, fh) \<longrightarrow> \<not> fh \<le> max_height)
              \<longrightarrow> target = target0 \<and> found = (target0 \<noteq> None))
         \<and> GetMaxPreviewHeight (c\<lparr>resolution_preset := RESOLUTION_PRESET_LOW\<rparr>) = 240
         \<and> GetMaxPreviewHeight (c\<lparr>resolution_preset := RESOLUTION_PRESET_MEDIUM\<rparr>) = 480
         \<and> GetMaxPreviewHeight (c\<lparr>resolution_preset := RESOLUTION_PRESET_HIGH\<rparr>) = 720
         \<and> GetMaxPreviewHeight (c\<lparr>resolution_preset := RESOLUTION_PRESET_VERY_HIGH\<rparr>) = 1080
         \<and> GetMaxPreviewHeight (c\<lparr>resolution_preset := RESOLUTION_PRESET_ULTRA_HIGH\<rparr>) = 2160
         \<and> frame_height \<le> GetMaxPreviewHeight (c\<lparr>resolution_preset := RESOLUTION_PRESET_AUTO\<rparr>)"
proof -
  have loop: "FindBestMediaType_loop 0 entries max_height (target0, 0, 0) = (target, bw, bh)"
    and found: "found = (target \<noteq> None)"
    using assms by (auto simp: FindBestMediaType_def split: prod.splits)
  note last = FindBestMediaType_loop_last [OF loop]
  have sel: "if \<exists>k. passes entries max_height k
            then \<exists>k. target = Some k \<and> passes entries max_height k
                   \<and> entries ! k = Some (bw, bh) \<and> bh \<le> max_height
                   \<and> (\<forall>j. k < j \<longrightarrow> \<not> passes entries max_height j)
            else target = target0 \<and> bw = 0 \<and> bh = 0"
  proof (cases "\<exists>k. passes entries max_height k")
    case True
    then obtain k where k: "target = Some k" "passes entries max_height k"
        "entries ! k = Some (bw, bh)" "\<forall>j. k < j \<longrightarrow> \<not> passes entries max_height j"
      using last by auto
    have "bh \<le> max_height"
      using k(2,3) by (simp add: passes_def improves_def)
    then show ?thesis using True k by auto
  next
    case False
    then show ?thesis using last by simp
  qed
  have none: "target = target0 \<and> found = (target0 \<noteq> None)"
    if "\<forall>j < length entries. \<forall>fw fh. entries ! j = Some (fw, fh) \<longrightarrow> \<not> fh \<le> max_height"
    using no_candidate_no_pass [OF that] last found by simp
  have auto_cap: "frame_height \<le> GetMaxPreviewHeight (c\<lparr>resolution_preset := RESOLUTION_PRESET_AUTO\<rparr>)"
  proof -
    have "unat frame_height < 2 ^ 32"
      using unsigned_less [of frame_height] by simp
    then have "frame_height \<le> (0xffffffff :: u32)"
      by (simp add: word_le_nat_alt)
    then show ?thesis by (simp add: GetMaxPreviewHeight_def)
  qed
  show ?thesis
    using found sel none auto_cap by (simp add: GetMaxPreviewHeight_def)
qed

lemma FindBestMediaType_selection_example:
  "FindBestMediaType [Some (640, 480), Some (1920, 1080), Some (320, 240), Some (1280, 720)]
     720 None = (True, Some 3, 1280, 720)
   \<and> passes [Some (640, 480), Some (1920, 1080), Some (320, 240), Some (1280, 720)] 720 3
   \<and> fst (FindBestMediaType [Some (1920, 1080)] 720 None) = False
   \<and> fst (snd (FindBestMediaType [Some (1920, 1080)] 720 None)) = None"
proof -
  let ?xs = "[Some (640, 480), Some (1920, 1080), Some (320, 240), Some (1280, 720 :: u32)]
               :: media_type_entry list"
  let ?ys = "[Some (1920, 1080 :: u32)] :: media_type_entry list"
  have run: "FindBestMediaType ?xs 720 None = (True, Some 3, 1280, 720)"
    by (simp add: FindBestMediaType_def)
  have p3: "passes ?xs 720 3"
    by (simp add: passes_def best_so_far_def improves_def)
  have "\<exists>k. passes ?xs 720 k" using p3 by blast
  then have "\<exists>k. Some (3::nat) = Some k \<and> passes ?xs 720 k"
    using FindBestMediaType_selection [OF run, of initialized_controller 0] by auto
  then have a: "passes ?xs 720 3" by simp
  obtain found target bw bh where
    run2: "FindBestMediaType ?ys 720 None = (found, target, bw, bh)"
    by (cases "FindBestMediaType ?ys 720 None")
  have none: "\<forall>j < length ?ys. \<forall>fw fh. ?ys ! j = Some (fw, fh) \<longrightarrow> \<not> fh \<le> (720 :: u32)"
    by simp
  have "target = None \<and> found = False"
    using FindBestMediaType_selection [OF run2, of initialized_controller 0] none by blast
  then have b: "fst (FindBestMediaType ?ys 720 None) = False
                \<and> fst (snd (FindBestMediaType ?ys 720 None)) = None"
    using run2 by simp
  show ?thesis using run a b by simp
qed

text \<open>
  With a slot that is empty on entry the selection is as it should be: it succeeds
  exactly when some candidate under the cap is selected, and it fails, with no media
  type, when no candidate satisfies the cap.
\<close>

lemma FindBestMediaType_empty_slot:
  assumes "FindBestMediaType entries max_height None = (found, target, bw, bh)"
  shows "found = (\<exists>k. passes entries max_height k)
         \<and> ((\<forall>j < length entries. \<forall>fw fh. entries ! j = Some (fw, fh) \<longrightarrow> \<not> fh \<le> max_height)
              \<longrightarrow> \<not> found \<and> target = None)"
proof -
  note sel = FindBestMediaType_selection [OF assms, of initialized_controller 0]
  have "found = (\<exists>k. passes entries max_height k)"
  proof (cases "\<exists>k. passes entries max_height k")
    case True
    then show ?thesis using sel by auto
  next
    case False
    then show ?thesis using sel by auto
  qed
  then show ?thesis using sel by blast
qed

subsection \<open>The conversion of the pixel buffer\<close>

lemma length_set_dst_pixel: "length (set_dst_pixel i r g b a dst) = length dst"
  by (simp add: set_dst_pixel_def)

lemma set_dst_pixel_before: "k < 4 * i \<Longrightarrow> set_dst_pixel i r g b a dst ! k = dst ! k"
  by (simp add: set_dst_pixel_def)

lemma dst_pixel_set_dst_pixel:
  "4 * i + 3 < length dst \<Longrightarrow> dst_pixel (set_dst_pixel i r g b a dst) i = (r, g, b, a)"
  by (simp add: dst_pixel_def set_dst_pixel_def)

lemma dst_pixel_cong:
  "\<forall>k < 4 * Suc i. xs ! k = ys ! k \<Longrightarrow> dst_pixel xs i = dst_pixel ys i"
  by (simp add: dst_pixel_def)

text \<open>
  The loop, when both arrays are long enough: it returns the destination with the
  pixels from \<open>i\<close> on converted and the bytes before pixel \<open>i\<close> as they were.
\<close>

lemma convert_pixels_result:
  assumes "4 * n \<le> length src" and "4 * n \<le> length dst"
  shows "\<exists>out. convert_pixels src n i dst = Inr out \<and> length out = length dst
           \<and> (\<forall>k < 4 * i. out ! k = dst ! k)
           \<and> (\<forall>j. i \<le> j \<and> j < n \<longrightarrow>
                 dst_pixel out j = (src_r src j, src_g src j, src_b src j, 255))"
  using assms
proof (induction src n i dst rule: convert_pixels.induct)
  case (1 src n i dst)
  show ?case
  proof (cases "i < n")
    case False
    then have stop: "convert_pixels src n i dst = Inr dst"
      by (subst convert_pixels.simps) simp
    have "\<forall>j. i \<le> j \<and> j < n \<longrightarrow>
            dst_pixel dst j = (src_r src j, src_g src j, src_b src j, 255)"
      using False by auto
    then show ?thesis unfolding stop by blast
  next
    case True
    let ?d = "set_dst_pixel i (src_r src i) (src_g src i) (src_b src i) 255 dst"
    have rd: "\<not> length src \<le> 4 * i + 2" and wr: "\<not> length dst \<le> 4 * i + 3"
      using True "1.prems" by auto
    have step: "convert_pixels src n i dst = convert_pixels src n (Suc i) ?d"
      using True rd wr by (subst convert_pixels.simps) simp
    have len: "4 * n \<le> length ?d"
      using "1.prems"(2) by (simp add: length_set_dst_pixel)
    obtain out where out: "convert_pixels src n (Suc i) ?d = Inr out" "length out = length ?d"
        "\<forall>k < 4 * Suc i. out ! k = ?d ! k"
        "\<forall>j. Suc i \<le> j \<and> j < n \<longrightarrow>
           dst_pixel out j = (src_r src j, src_g src j, src_b src j, 255)"
      using "1.IH" [OF True rd wr "1.prems"(1) len] by blast
    have here: "dst_pixel out i = (src_r src i, src_g src i, src_b src i, 255)"
      using dst_pixel_cong [OF out(3)] dst_pixel_set_dst_pixel [of i dst] wr by simp
    have before: "\<forall>k < 4 * i. out ! k = dst ! k"
      using out(3) by (simp add: set_dst_pixel_before)
    have pixels: "\<forall>j. i \<le> j \<and> j < n \<longrightarrow>
                    dst_pixel out j = (src_r src j, src_g src j, src_b src j, 255)"
    proof (intro allI impI)
      fix j assume j: "i \<le> j \<and> j < n"
      show "dst_pixel out j = (src_r src j, src_g src j, src_b src j, 255)"
      proof (cases "j = i")
        case True
        then show ?thesis using here by simp
      next
        case False
        then have "Suc i \<le> j \<and> j < n" using j by simp
        then show ?thesis using out(4) by blast
      qed
    qed
    show ?thesis
      using step out(1,2) before pixels by (simp add: length_set_dst_pixel)
  qed
qed

text \<open>
  C9, at the failing input. The raw buffer holds one pixel (four bytes) and the
  preview frame is 2 x 1: raw data exists and both dimensions are positive, and the loop
  reads the second pixel past the end of the raw buffer. The function compares the
  recorded size of the raw buffer with zero and never with the size of the frame.
\<close>

theorem ConvertPixelBufferForFlutter_short_source:
  "source_buffer_data one_pixel_frame = Some [10, 20, 30, 0]
   \<and> 0 < source_buffer_size one_pixel_frame
   \<and> 0 < preview_frame_width one_pixel_frame
   \<and> 0 < preview_frame_height one_pixel_frame
   \<and> ConvertPixelBufferForFlutter 2 1 one_pixel_frame = Inl OutOfBoundsRead"
  by (simp add: one_pixel_frame_def ConvertPixelBufferForFlutter_def and_then_def
      set_dst_pixel_def convert_pixels.simps)

text \<open>
  The multiplications are those of 32-bit unsigned integers: for a preview frame of
  65536 x 65536 the number of pixels wraps to 0, and the buffer returned has no bytes.
\<close>

lemma ConvertPixelBufferForFlutter_wraps:
  "map_sum id (map_option (\<lambda>b. (length (buffer b), width b, height b)) \<circ> snd)
     (ConvertPixelBufferForFlutter 640 480
        (one_pixel_frame\<lparr>preview_frame_width := 65536, preview_frame_height := 65536\<rparr>)) =
     Inr (Some (0, 65536, 65536))"
  by (simp add: one_pixel_frame_def ConvertPixelBufferForFlutter_def and_then_def
      convert_pixels.simps)

text \<open>
  Where the conversion is defined. Whatever the requested width and height: when raw
  data exists, the recorded size of the raw buffer and both preview dimensions are
  positive, four bytes per pixel of the preview frame fit in 32 bits and the raw buffer
  holds that many bytes, the function returns a presentation buffer of exactly preview
  width x preview height pixels, each with the red, green and blue bytes of the raw pixel
  and the alpha byte 255; when there is no raw data, or its recorded size or a preview
  dimension is zero, it returns no buffer.
\<close>

lemma ConvertPixelBufferForFlutter_result:
  "(source_buffer_data c = Some src \<and> 0 < source_buffer_size c
      \<and> 0 < preview_frame_width c \<and> 0 < preview_frame_height c
      \<and> 4 * (unat (preview_frame_width c) * unat (preview_frame_height c)) < 2 ^ 32
      \<and> 4 * (unat (preview_frame_width c) * unat (preview_frame_height c)) \<le> length src
    \<longrightarrow> (\<exists>dst. ConvertPixelBufferForFlutter target_width target_height c =
                 Inr (c\<lparr>dest_buffer := Some dst\<rparr>,
                      Some \<lparr>buffer = dst, width = unat (preview_frame_width c),
                            height = unat (preview_frame_height c)\<rparr>)
             \<and> length dst = 4 * (unat (preview_frame_width c) * unat (preview_frame_height c))
             \<and> (\<forall>j < unat (preview_frame_width c) * unat (preview_frame_height c).
                   dst_pixel dst j = (src_r src j, src_g src j, src_b src j, 255))))
   \<and> (source_buffer_data c = None \<or> source_buffer_size c = 0
        \<or> preview_frame_width c = 0 \<or> preview_frame_height c = 0
      \<longrightarrow> ConvertPixelBufferForFlutter target_width target_height c = Inr (c, None))"
proof -
  let ?w = "preview_frame_width c" and ?h = "preview_frame_height c"
  let ?n = "unat ?w * unat ?h"
  have some: "\<exists>dst. ConvertPixelBufferForFlutter target_width target_height c =
                 Inr (c\<lparr>dest_buffer := Some dst\<rparr>,
                      Some \<lparr>buffer = dst, width = unat ?w, height = unat ?h\<rparr>)
             \<and> length dst = 4 * ?n
             \<and> (\<forall>j < ?n. dst_pixel dst j = (src_r src j, src_g src j, src_b src j, 255))"
    if h: "source_buffer_data c = Some src" "0 < source_buffer_size c" "0 < ?w" "0 < ?h"
          "4 * ?n < 2 ^ 32" "4 * ?n \<le> length src"
  proof -
    have lt: "?n < 2 ^ 32" and lt4: "?n * 4 < 2 ^ 32"
      using h(5) by (simp_all add: ac_simps)
    have "unat (?w * ?h) = ?n mod 2 ^ 32"
      by (simp add: unat_word_ariths)
    then have n: "unat (?w * ?h) = ?n"
      using lt by (simp only: mod_less)
    have "unat (?w * ?h * 4) = (unat (?w * ?h) * 4) mod 2 ^ 32"
      by (simp add: unat_word_ariths)
    then have "unat (?w * ?h * 4) = ?n * 4"
      using lt4 by (simp only: n mod_less)
    then have n4: "unat (?w * ?h * 4) = 4 * ?n"
      by simp
    let ?zero = "replicate (4 * ?n) (0 :: u8)"
    obtain out where out: "convert_pixels src ?n 0 ?zero = Inr out" "length out = length ?zero"
        "\<forall>j. 0 \<le> j \<and> j < ?n \<longrightarrow>
           dst_pixel out j = (src_r src j, src_g src j, src_b src j, 255)"
      using convert_pixels_result [OF h(6), of ?zero 0] by auto
    have "ConvertPixelBufferForFlutter target_width target_height c =
            Inr (c\<lparr>dest_buffer := Some out\<rparr>,
                 Some \<lparr>buffer = out, width = unat ?w, height = unat ?h\<rparr>)"
      using h(1-4) out(1) n n4
      by (simp add: ConvertPixelBufferForFlutter_def and_then_def Let_def)
    then show ?thesis using out(2,3) by auto
  qed
  have none: "ConvertPixelBufferForFlutter target_width target_height c = Inr (c, None)"
    if "source_buffer_data c = None \<or> source_buffer_size c = 0 \<or> ?w = 0 \<or> ?h = 0"
    using that
    by (auto simp: ConvertPixelBufferForFlutter_def split: option.splits)
  show ?thesis using some none by blast
qed

lemma ConvertPixelBufferForFlutter_result_example:
  "map_sum id (map_option (\<lambda>b. (length (buffer b), width b, height b, dst_pixel (buffer b) 1))
                 \<circ> snd)
     (ConvertPixelBufferForFlutter 640 480 two_pixel_frame) =
     Inr (Some (8, 2, 1, (60, 50, 40, 255)))
   \<and> ConvertPixelBufferForFlutter 640 480 initialized_controller =
       Inr (initialized_controller, None)"
proof -
  let ?src = "[10, 20, 30, 0, 40, 50, 60, 0] :: u8 list"
  have f: "source_buffer_data two_pixel_frame = Some ?src"
          "source_buffer_size two_pixel_frame = 8"
          "preview_frame_width two_pixel_frame = 2" "preview_frame_height two_pixel_frame = 1"
    by (simp_all add: two_pixel_frame_def)
  have pre: "source_buffer_data two_pixel_frame = Some ?src
      \<and> 0 < source_buffer_size two_pixel_frame
      \<and> 0 < preview_frame_width two_pixel_frame \<and> 0 < preview_frame_height two_pixel_frame
      \<and> 4 * (unat (preview_frame_width two_pixel_frame)
              * unat (preview_frame_height two_pixel_frame)) < 2 ^ 32
      \<and> 4 * (unat (preview_frame_width two_pixel_frame)
              * unat (preview_frame_height two_pixel_frame)) \<le> length ?src"
    by (simp add: f)
  obtain dst where dst:
      "ConvertPixelBufferForFlutter 640 480 two_pixel_frame =
         Inr (two_pixel_frame\<lparr>dest_buffer := Some dst\<rparr>,
              Some \<lparr>buffer = dst, width = unat (preview_frame_width two_pixel_frame),
                    height = unat (preview_frame_height two_pixel_frame)\<rparr>)"
      "length dst = 4 * (unat (preview_frame_width two_pixel_frame)
                         * unat (preview_frame_height two_pixel_frame))"
      "\<forall>j < unat (preview_frame_width two_pixel_frame)
              * unat (preview_frame_height two_pixel_frame).
         dst_pixel dst j = (src_r ?src j, src_g ?src j, src_b ?src j, 255)"
    using ConvertPixelBufferForFlutter_result [of two_pixel_frame ?src 640 480] pre by blast
  have p1: "dst_pixel dst 1 = (60, 50, 40, 255)"
    using dst(3) by (simp add: f src_r_def src_g_def src_b_def)
  have a: "map_sum id
             (map_option (\<lambda>b. (length (buffer b), width b, height b, dst_pixel (buffer b) 1))
                \<circ> snd)
             (ConvertPixelBufferForFlutter 640 480 two_pixel_frame) =
           Inr (Some (8, 2, 1, (60, 50, 40, 255)))"
    using dst(1,2) p1 by (simp add: f)
  have "source_buffer_data initialized_controller = None"
    by (simp add: initialized_controller_def initializing_controller_def
        new_CaptureControllerImpl_def)
  then have b: "ConvertPixelBufferForFlutter 640 480 initialized_controller =
                  Inr (initialized_controller, None)"
    using ConvertPixelBufferForFlutter_result [of initialized_controller ?src 640 480] by blast
  show ?thesis using a b by simp
qed

subsection \<open>The invariant of the capture controller\<close>

lemma wf_new: "controller_wf (new_CaptureControllerImpl True)"
  by (simp add: controller_wf_def new_CaptureControllerImpl_def)

lemma wf_listener_calls [simp]: "controller_wf (c\<lparr>listener_calls := xs\<rparr>) = controller_wf c"
  by (simp add: controller_wf_def)

lemma wf_notify [simp]: "controller_wf (notify call c) = controller_wf c"
  by (simp add: notify_def)

lemma wf_OnRecordStopped: "controller_wf c \<Longrightarrow> controller_wf (OnRecordStopped success error c)"
  by (auto simp: controller_wf_def OnRecordStopped_def OnRecordStopped_notify_def notify_def Let_def
      split: option.splits)

lemma wf_OnRecordStarted: "controller_wf c \<Longrightarrow> controller_wf (OnRecordStarted success error c)"
  by (auto simp: controller_wf_def OnRecordStarted_def notify_def split: option.splits)

lemma wf_OnPicture: "controller_wf c \<Longrightarrow> controller_wf (OnPicture success error c)"
  by (auto simp: controller_wf_def OnPicture_def notify_def split: option.splits)

lemma wf_OnPreviewStopped: "controller_wf c \<Longrightarrow> controller_wf (OnPreviewStopped success error c)"
  by (auto simp: controller_wf_def OnPreviewStopped_def)

lemma wf_OnCaptureEngineError: "controller_wf c \<Longrightarrow> controller_wf (OnCaptureEngineError hr error c)"
  by (auto simp: controller_wf_def OnCaptureEngineError_def notify_def)

lemma wf_OnPreviewStarted:
  "controller_wf c \<Longrightarrow> OnPreviewStarted success error c = Inr c1 \<Longrightarrow> controller_wf c1"
  by (auto simp: controller_wf_def OnPreviewStarted_def and_then_def notify_def
      PreviewHandler_OnPreviewStarted_def split: option.splits if_splits sum.splits)

lemma wf_StopRecord:
  "controller_wf c \<Longrightarrow> StopRecord env c = Inr c1 \<Longrightarrow> controller_wf c1"
  by (auto simp: StopRecord_def StopRecord_guard_def deref_def and_then_def wf_OnRecordStopped
      split: if_splits option.splits prod.splits)
     (auto simp: controller_wf_def OnRecordStopped_def OnRecordStopped_notify_def)

lemma wf_StopTimedRecord:
  "controller_wf c \<Longrightarrow> StopTimedRecord env c = Inr c1 \<Longrightarrow> controller_wf c1"
  by (auto simp: StopTimedRecord_def notify_unchecked_def notify_def controller_wf_def
      split: if_splits option.splits prod.splits)

lemma wf_StopPreview:
  "controller_wf c \<Longrightarrow> StopPreview env c = Inr c1 \<Longrightarrow> controller_wf c1"
  by (auto simp: StopPreview_def deref_def and_then_def controller_wf_def
      split: if_splits option.splits)

lemma wf_PausePreview:
  "controller_wf c \<Longrightarrow> PausePreview c = Inr c1 \<Longrightarrow> controller_wf c1"
  by (auto simp: PausePreview_def preview_not_started_def deref_def and_then_def
      notify_unchecked_def notify_def controller_wf_def
      split: if_splits option.splits prod.splits)

lemma wf_ResumePreview:
  "controller_wf c \<Longrightarrow> ResumePreview c = Inr c1 \<Longrightarrow> controller_wf c1"
  by (auto simp: ResumePreview_def preview_not_started_def deref_def and_then_def
      notify_unchecked_def notify_def controller_wf_def
      split: if_splits option.splits prod.splits)


lemma ResetCaptureController_result:
  assumes "controller_wf c"
  shows "\<exists>c1. ResetCaptureController env c = Inr c1 \<and> controller_wf c1
           \<and> capture_engine_state c1 = CAPTURE_ENGINE_NOT_INITIALIZED
           \<and> (listener_calls c1 = listener_calls c
              \<or> listener_calls c1 =
                  listener_calls c @ [Call_OnVideoRecordFailed ''Failed to record video''])"
proof -
  have init: "capture_engine_state c = CAPTURE_ENGINE_INITIALIZED \<and> capture_engine c"
    if "record_handler c \<noteq> None \<or> preview_handler c \<noteq> None"
    using that assms by (auto simp: controller_wf_def)
  have first: "\<exists>c1. (case record_handler c of
                        Some rh \<Rightarrow>
                          if IsContinuousRecording rh then StopRecord env c
                          else if IsTimedRecording rh then StopTimedRecord env c
                          else Inr c
                      | None \<Rightarrow> Inr c) = Inr c1
                 \<and> controller_wf c1 \<and> preview_handler c1 = preview_handler c
                 \<and> capture_engine_state c1 = capture_engine_state c
                 \<and> (listener_calls c1 = listener_calls c
                    \<or> listener_calls c1 =
                        listener_calls c @ [Call_OnVideoRecordFailed ''Failed to record video''])"
  proof (cases "record_handler c")
    case None
    then show ?thesis using assms by simp
  next
    case (Some rh)
    have st: "capture_engine_state c = CAPTURE_ENGINE_INITIALIZED" using init Some by simp
    have l: "capture_controller_listener c" using assms by (simp add: controller_wf_def)
    show ?thesis
    proof (cases "IsContinuousRecording rh")
      case True
      have "\<exists>c1. StopRecord env c = Inr c1 \<and> preview_handler c1 = preview_handler c
                 \<and> capture_engine_state c1 = capture_engine_state c
                 \<and> listener_calls c1 = listener_calls c"
        using Some st l
        by (cases "RecordHandler_StopRecord (hr_StopRecord env) rh")
           (auto simp: StopRecord_def StopRecord_guard_def deref_def and_then_def
              OnRecordStopped_def OnRecordStopped_notify_def)
      then show ?thesis
        using Some True wf_StopRecord [OF assms] by auto
    next
      case False
      show ?thesis
      proof (cases "IsTimedRecording rh")
        case True
        obtain c1 where c1: "StopTimedRecord env c = Inr c1"
            "preview_handler c1 = preview_handler c"
            "capture_engine_state c1 = capture_engine_state c"
            "listener_calls c1 = listener_calls c
             \<or> listener_calls c1 =
                 listener_calls c @ [Call_OnVideoRecordFailed ''Failed to record video'']"
          using StopTimedRecord_result [OF l, of env] by blast
        then show ?thesis
          using Some False True wf_StopTimedRecord [OF assms c1(1)] by auto
      next
        case nt: False
        then show ?thesis using Some False assms by simp
      qed
    qed
  qed
  then obtain c1 where c1: "(case record_handler c of
                        Some rh \<Rightarrow>
                          if IsContinuousRecording rh then StopRecord env c
                          else if IsTimedRecording rh then StopTimedRecord env c
                          else Inr c
                      | None \<Rightarrow> Inr c) = Inr c1"
      "controller_wf c1" "preview_handler c1 = preview_handler c"
      "capture_engine_state c1 = capture_engine_state c"
      "listener_calls c1 = listener_calls c
       \<or> listener_calls c1 = listener_calls c @ [Call_OnVideoRecordFailed ''Failed to record video'']"
    by blast
  have second: "\<exists>c2. (if preview_handler c1 \<noteq> None then StopPreview env c1 else Inr c1) = Inr c2
                  \<and> controller_wf c2 \<and> listener_calls c2 = listener_calls c1"
  proof (cases "preview_handler c1")
    case None
    then show ?thesis using c1(2) by simp
  next
    case (Some p)
    have "capture_engine c1" "capture_engine_state c1 = CAPTURE_ENGINE_INITIALIZED"
      using c1(2) Some by (auto simp: controller_wf_def)
    then have "\<exists>c2. StopPreview env c1 = Inr c2 \<and> listener_calls c2 = listener_calls c1"
      using Some by (simp add: StopPreview_def deref_def and_then_def)
    then show ?thesis using Some wf_StopPreview [OF c1(2)] by auto
  qed
  then obtain c2 where c2: "(if preview_handler c1 \<noteq> None then StopPreview env c1 else Inr c1) = Inr c2"
      "controller_wf c2" "listener_calls c2 = listener_calls c1"
    by blast
  have "capture_controller_listener c2" using c2(2) by (simp add: controller_wf_def)
  then show ?thesis
    using c1(1,5) c2(1,3)
    by (simp add: ResetCaptureController_def and_then_def controller_wf_def)
qed

lemma wf_ResetCaptureController:
  "controller_wf c \<Longrightarrow> ResetCaptureController env c = Inr c1 \<Longrightarrow> controller_wf c1"
  using ResetCaptureController_result [of c env] by auto

lemma wf_OnCaptureEngineInitialized:
  assumes "controller_wf c" and "capture_engine_state c \<noteq> CAPTURE_ENGINE_NOT_INITIALIZED"
    and "OnCaptureEngineInitialized env success error c = Inr c1"
  shows "controller_wf c1"
proof (cases "0 \<le> new_texture_id env")
  case True
  then show ?thesis
    using assms
    by (auto simp: OnCaptureEngineInitialized_def controller_wf_def notify_def split: if_splits)
next
  case False
  have wfn: "controller_wf (notify (Call_OnCreateCaptureEngineFailed ''Failed to create texture_id'') c)"
    using assms(1) by simp
  have reset: "ResetCaptureController env
                 (notify (Call_OnCreateCaptureEngineFailed ''Failed to create texture_id'') c) = Inr c1"
    using assms False
    by (auto simp: OnCaptureEngineInitialized_def controller_wf_def split: if_splits)
  show ?thesis
    by (rule wf_ResetCaptureController [OF wfn reset])
qed

lemma wf_OnEvent:
  assumes "controller_wf c" and "OnEvent env event c = Inr c1"
  shows "controller_wf c1"
proof (cases "capture_engine_state c = CAPTURE_ENGINE_NOT_INITIALIZED")
  case True
  then show ?thesis using assms by (simp add: OnEvent_def)
next
  case False
  show ?thesis
  proof (cases "extended_type event")
    case None
    then show ?thesis using assms by (simp add: OnEvent_def split: if_splits)
  next
    case (Some guid)
    show ?thesis
    proof (cases "status event")
      case None
      then show ?thesis using assms Some by (simp add: OnEvent_def split: if_splits)
    next
      case st: (Some hr)
      have "capture_engine_state c = CAPTURE_ENGINE_INITIALIZED
            \<or> capture_engine_state c = CAPTURE_ENGINE_INITIALIZING"
        using False by (cases "capture_engine_state c") simp_all
      then have run: "OnEvent_dispatch env guid hr
                        (if FAILED hr then status_message event else []) c = Inr c1"
        using assms(2) Some st by (auto simp: OnEvent_def)
      show ?thesis
        using run assms(1) False
        by (cases guid)
           (auto simp: wf_OnCaptureEngineError wf_OnPreviewStopped wf_OnRecordStarted
              wf_OnRecordStopped wf_OnPicture
              intro: wf_OnCaptureEngineInitialized)
    qed
  qed
qed

lemma wf_UpdateCaptureTime:
  assumes "controller_wf c" and "UpdateCaptureTime env t c = Inr c1"
  shows "controller_wf c1"
proof (cases "capture_engine_state c = CAPTURE_ENGINE_INITIALIZED")
  case False
  then show ?thesis using assms by (simp add: UpdateCaptureTime_def)
next
  case True
  obtain c0 where c0: "(if (case preview_handler c of Some p \<Rightarrow> IsStarting p | None \<Rightarrow> False)
                        then OnPreviewStarted True [] c else Inr c) = Inr c0"
    using assms(2) True by (auto simp: UpdateCaptureTime_def and_then_def split: sum.splits)
  have wf0: "controller_wf c0"
    using c0 assms(1) wf_OnPreviewStarted by (auto split: if_splits)
  have st0: "capture_engine_state c0 = CAPTURE_ENGINE_INITIALIZED"
    using c0 True
    by (auto simp: OnPreviewStarted_def and_then_def notify_def split: if_splits option.splits sum.splits)
  show ?thesis
  proof (cases "record_handler c0")
    case None
    then show ?thesis using assms(2) True c0 wf0 by (simp add: UpdateCaptureTime_def and_then_def)
  next
    case (Some rh)
    let ?c2 = "c0\<lparr>record_handler := Some (UpdateRecordingTime t rh)\<rparr>"
    have wf2: "controller_wf ?c2" using wf0 st0 by (simp add: controller_wf_def)
    have "(if ShouldStopTimedRecording (UpdateRecordingTime t rh)
           then StopTimedRecord env ?c2 else Inr ?c2) = Inr c1"
      using assms(2) True c0 Some by (simp add: UpdateCaptureTime_def and_then_def Let_def)
    then show ?thesis using wf2 wf_StopTimedRecord by (auto split: if_splits)
  qed
qed


lemma FindBaseMediaTypes_frame:
  "FindBaseMediaTypes env c = (c1, hr) \<Longrightarrow>
     capture_controller_listener c1 = capture_controller_listener c
     \<and> capture_engine_state c1 = capture_engine_state c
     \<and> record_handler c1 = record_handler c \<and> preview_handler c1 = preview_handler c
     \<and> photo_handler c1 = photo_handler c \<and> texture_id c1 = texture_id c
     \<and> capture_engine c1 = capture_engine c \<and> listener_calls c1 = listener_calls c"
  by (auto simp: FindBaseMediaTypes_def Let_def split: if_splits prod.splits)

lemma wf_FindBaseMediaTypes:
  "controller_wf c \<Longrightarrow> FindBaseMediaTypes env c = (c1, hr) \<Longrightarrow> controller_wf c1"
  using FindBaseMediaTypes_frame [of env c c1 hr] by (simp add: controller_wf_def)

lemma wf_set_handler:
  "controller_wf c \<Longrightarrow> capture_engine_state c = CAPTURE_ENGINE_INITIALIZED \<Longrightarrow>
     controller_wf (c\<lparr>photo_handler := ph\<rparr>) \<and> controller_wf (c\<lparr>record_handler := rh\<rparr>)
     \<and> controller_wf (c\<lparr>preview_handler := p\<rparr>)"
  by (simp add: controller_wf_def)

lemma wf_clear_handler:
  "controller_wf c \<Longrightarrow>
     controller_wf (c\<lparr>photo_handler := None\<rparr>) \<and> controller_wf (c\<lparr>record_handler := None\<rparr>)
     \<and> controller_wf (c\<lparr>preview_handler := None\<rparr>)"
  by (simp add: controller_wf_def)

lemma wf_TakePicture:
  assumes "controller_wf c" and "TakePicture env file_path c = Inr c1"
  shows "controller_wf c1"
proof (cases "capture_engine_state c = CAPTURE_ENGINE_INITIALIZED")
  case False
  then show ?thesis
    using assms by (auto simp: TakePicture_def wf_OnPicture split: if_splits)
next
  case True
  obtain c0 hr where c0:
    "(if base_capture_media_type c = None then FindBaseMediaTypes env c else (c, S_OK)) = (c0, hr)"
    by (cases "if base_capture_media_type c = None then FindBaseMediaTypes env c else (c, S_OK)")
  have wf0: "controller_wf c0"
    using c0 assms(1) wf_FindBaseMediaTypes by (auto split: if_splits)
  have st0: "capture_engine_state c0 = CAPTURE_ENGINE_INITIALIZED"
    using c0 True FindBaseMediaTypes_frame [of env c c0 hr] by (auto split: if_splits)
  show ?thesis
    using assms(2) True c0 wf0 st0 wf_set_handler [OF wf0 st0] wf_clear_handler [OF wf0]
    by (auto simp: TakePicture_def wf_OnPicture split: if_splits prod.splits)
qed

lemma wf_StartRecord:
  assumes "controller_wf c" and "StartRecord env file_path max_duration c = Inr c1"
  shows "controller_wf c1"
proof (cases "capture_engine_state c = CAPTURE_ENGINE_INITIALIZED")
  case False
  then show ?thesis
    using assms by (auto simp: StartRecord_def wf_OnRecordStarted split: if_splits)
next
  case True
  obtain c0 hr where c0:
    "(if base_capture_media_type c = None then FindBaseMediaTypes env c else (c, S_OK)) = (c0, hr)"
    by (cases "if base_capture_media_type c = None then FindBaseMediaTypes env c else (c, S_OK)")
  have wf0: "controller_wf c0"
    using c0 assms(1) wf_FindBaseMediaTypes by (auto split: if_splits)
  have st0: "capture_engine_state c0 = CAPTURE_ENGINE_INITIALIZED"
    using c0 True FindBaseMediaTypes_frame [of env c c0 hr] by (auto split: if_splits)
  show ?thesis
    using assms(2) True c0 wf0 st0 wf_set_handler [OF wf0 st0] wf_clear_handler [OF wf0]
    by (auto simp: StartRecord_def wf_OnRecordStarted split: if_splits prod.splits)
qed

lemma wf_StartPreview:
  assumes "controller_wf c" and "StartPreview env c = Inr c1"
  shows "controller_wf c1"
proof (cases "capture_engine_state c = CAPTURE_ENGINE_INITIALIZED")
  case False
  then show ?thesis
    using assms wf_OnPreviewStarted by (auto simp: StartPreview_def split: if_splits)
next
  case True
  obtain c0 hr where c0:
    "(if base_preview_media_type c = None then FindBaseMediaTypes env c else (c, S_OK)) = (c0, hr)"
    by (cases "if base_preview_media_type c = None then FindBaseMediaTypes env c else (c, S_OK)")
  have wf0: "controller_wf c0"
    using c0 assms(1) wf_FindBaseMediaTypes by (auto split: if_splits)
  have st0: "capture_engine_state c0 = CAPTURE_ENGINE_INITIALIZED"
    using c0 True FindBaseMediaTypes_frame [of env c c0 hr] by (auto split: if_splits)
  have A: "controller_wf x" if "OnPreviewStarted s e c0 = Inr x" for s e x
    using wf_OnPreviewStarted [OF wf0 that] .
  have B: "controller_wf x" if "OnPreviewStarted s e (c0\<lparr>preview_handler := None\<rparr>) = Inr x"
    for s e x
    using wf_OnPreviewStarted [OF _ that] wf_clear_handler [OF wf0] by blast
  have C: "controller_wf (c0\<lparr>preview_handler := Some p\<rparr>)" for p
    using wf_set_handler [OF wf0 st0] by blast
  have run: "(if FAILED hr then OnPreviewStarted False ''Failed to initialize video preview'' c0
              else
                (case preview_handler c0 of
                   Some p \<Rightarrow>
                     if IsInitialized p then OnPreviewStarted True [] c0
                     else OnPreviewStarted False ''Preview already exists'' c0
                 | None \<Rightarrow>
                     and_then
                       (PreviewHandler_StartPreview (capture_engine c0)
                          (base_capture_media_type c0 \<noteq> None) (sink_calls env)
                          (hr_StartPreview env) new_PreviewHandler)
                       (\<lambda>started_handler.
                          if \<not> snd started_handler
                          then OnPreviewStarted False ''Failed to start video preview''
                                 (c0\<lparr>preview_handler := None\<rparr>)
                          else Inr (c0\<lparr>preview_handler := Some (fst started_handler)\<rparr>)))) = Inr c1"
    using assms(2) True c0 by (simp add: StartPreview_def split: if_splits)
  show ?thesis
  proof (cases "FAILED hr")
    case True
    then show ?thesis using run A by simp
  next
    case nf: False
    show ?thesis
    proof (cases "preview_handler c0")
      case (Some p)
      then show ?thesis using run nf A by (simp split: if_splits)
    next
      case None
      then show ?thesis
        using run nf B C by (auto simp: and_then_def split: sum.splits if_splits)
    qed
  qed
qed

lemma wf_InitCaptureDevice:
  assumes "controller_wf c" and "InitCaptureDevice env registrar device audio preset c = Inr c1"
  shows "controller_wf c1"
proof (cases "capture_engine_state c = CAPTURE_ENGINE_NOT_INITIALIZED")
  case False
  then show ?thesis
    using assms
    by (cases "capture_engine_state c")
       (auto simp: InitCaptureDevice_def notify_unchecked_def controller_wf_def notify_def
          split: if_splits)
next
  case True
  let ?c1 = "c\<lparr>capture_engine_state := CAPTURE_ENGINE_INITIALIZING, resolution_preset := preset,
               record_audio := audio, texture_registrar := registrar, video_device_id := device\<rparr>"
  have none: "record_handler c = None \<and> preview_handler c = None \<and> photo_handler c = None
              \<and> capture_controller_listener c"
    using assms(1) True by (simp add: controller_wf_def)
  show ?thesis
  proof (cases "\<not> media_foundation_started ?c1 \<and> FAILED (hr_MFStartup env)")
    case mf: True
    have wfn: "controller_wf ((notify (Call_OnCreateCaptureEngineFailed ''Failed to create camera'')
                 ?c1)\<lparr>capture_engine := True\<rparr>)"
      using none by (simp add: controller_wf_def notify_def)
    have "ResetCaptureController env
            (notify (Call_OnCreateCaptureEngineFailed ''Failed to create camera'') ?c1) = Inr c1"
      using assms(2) True mf none
      by (auto simp: InitCaptureDevice_def notify_unchecked_def and_then_def Let_def)
    then show ?thesis
      using none
      by (auto simp: ResetCaptureController_def and_then_def notify_def controller_wf_def)
  next
    case mf: False
    obtain c2 hr where c2: "CreateCaptureEngine env (?c1\<lparr>media_foundation_started := True\<rparr>)
                             = Inr (c2, hr)"
      using assms(2) True mf none
      by (auto simp: InitCaptureDevice_def and_then_def Let_def split: sum.splits)
    have c2f: "record_handler c2 = None \<and> preview_handler c2 = None \<and> photo_handler c2 = None
               \<and> capture_controller_listener c2
               \<and> capture_engine_state c2 = CAPTURE_ENGINE_INITIALIZING
               \<and> (\<not> FAILED hr \<longrightarrow> capture_engine c2)"
      using c2 none
      by (auto simp: CreateCaptureEngine_def Let_def split: if_splits)
    show ?thesis
    proof (cases "FAILED hr")
      case False
      then have "c1 = c2"
        using assms(2) True mf none c2
        by (auto simp: InitCaptureDevice_def and_then_def Let_def)
      then show ?thesis using c2f False by (simp add: controller_wf_def)
    next
      case True
      have "ResetCaptureController env
              (notify (Call_OnCreateCaptureEngineFailed ''Failed to create camera'') c2) = Inr c1"
        using assms(2) \<open>capture_engine_state c = CAPTURE_ENGINE_NOT_INITIALIZED\<close> mf none c2 c2f True
        by (auto simp: InitCaptureDevice_def notify_unchecked_def and_then_def Let_def)
      then show ?thesis
        using c2f
        by (auto simp: ResetCaptureController_def and_then_def notify_def controller_wf_def)
    qed
  qed
qed

lemma wf_GetFrameBuffer: "controller_wf c \<Longrightarrow> controller_wf (GetFrameBuffer new_length c)"
  by (simp add: GetFrameBuffer_def controller_wf_def)

lemma wf_ConvertPixelBufferForFlutter:
  "controller_wf c \<Longrightarrow> ConvertPixelBufferForFlutter w h c = Inr (c1, b) \<Longrightarrow> controller_wf c1"
  by (auto simp: ConvertPixelBufferForFlutter_def and_then_def controller_wf_def Let_def
      split: option.splits if_splits sum.splits)

lemma deliver_all_video_record_failed:
  "calls = [] \<or> calls = [Call_OnVideoRecordFailed error] \<Longrightarrow> deliver_all calls cam = cam"
  by (auto simp: deliver_all_def OnVideoRecordFailed_def)

text \<open>
  C2. When the camera is destroyed, its capture controller is released first; the
  controller satisfies its invariant, so its teardown calls at most
  \<open>OnVideoRecordFailed\<close> on the camera and leaves the pending results alone.
  Then every pending result is answered once with the error "Plugin disposed", in the
  order of the map: as many answers as there are pending results, one for each kind that
  has one, and the map is empty afterwards.
\<close>

theorem dispose_fails_all_pending:
  assumes "case capture_controller of None \<Rightarrow> True | Some c \<Rightarrow> controller_wf c"
  shows "CameraImpl_dtor env cam capture_controller =
           Inr (cam\<lparr>host_bridge := host_bridge cam
                     @ map (\<lambda>p. ResultError (snd p) ''Plugin disposed''
                                  ''Plugin disposed before request was handled'')
                         (pending_entries (pending_results cam)),
                   pending_results := Map.empty\<rparr>)
         \<and> length (pending_entries (pending_results cam)) = card (dom (pending_results cam))
         \<and> set (pending_entries (pending_results cam)) = {(t, r). pending_results cam t = Some r}
         \<and> distinct (map fst (pending_entries (pending_results cam)))"
proof -
  have released: "(case capture_controller of
                     None \<Rightarrow> Inr cam
                   | Some c \<Rightarrow>
                       and_then (CaptureControllerImpl_dtor env (c\<lparr>listener_calls := []\<rparr>))
                         (\<lambda>c1. Inr (deliver_all (listener_calls c1) cam))) = Inr cam"
  proof (cases capture_controller)
    case None
    then show ?thesis by simp
  next
    case (Some c)
    have "controller_wf (c\<lparr>listener_calls := []\<rparr>)" using assms Some by simp
    then obtain c1 where c1: "ResetCaptureController env (c\<lparr>listener_calls := []\<rparr>) = Inr c1"
        "listener_calls c1 = []
         \<or> listener_calls c1 = [Call_OnVideoRecordFailed ''Failed to record video'']"
      using ResetCaptureController_result [of "c\<lparr>listener_calls := []\<rparr>" env] by auto
    have "deliver_all (listener_calls c1) cam = cam"
      using c1(2) by (rule deliver_all_video_record_failed)
    then show ?thesis
      using Some c1(1) by (simp add: CaptureControllerImpl_dtor_def and_then_def)
  qed
  then have "CameraImpl_dtor env cam capture_controller =
           Inr (SendErrorForPendingResults ''Plugin disposed''
                  ''Plugin disposed before request was handled'' cam)"
    by (simp add: CameraImpl_dtor_def and_then_def)
  then show ?thesis
    by (simp add: SendErrorForPendingResults_eq length_pending_entries set_pending_entries
        distinct_pending_entries)
qed

theorem dispose_fails_all_pending_witness:
  "controller_wf recording_controller
   \<and> map_sum id (\<lambda>cam. (set (host_bridge cam), length (host_bridge cam),
                         pending_entries (pending_results cam)))
       (CameraImpl_dtor (all_succeed\<lparr>hr_StopRecord := E_FAIL\<rparr>) camera_with_two_pending
          (Some recording_controller)) =
     Inr ({ResultError 7 ''Plugin disposed'' ''Plugin disposed before request was handled'',
           ResultError 3 ''Plugin disposed'' ''Plugin disposed before request was handled''},
          2, [])"
proof -
  have wf: "case Some recording_controller of None \<Rightarrow> True | Some c \<Rightarrow> controller_wf c"
    by (simp add: controller_wf_def recording_controller_def initialized_controller_def
        initializing_controller_def new_CaptureControllerImpl_def)
  have e: "pending_entries (pending_results camera_with_two_pending) =
             [(STOP_RECORD, 3), (TAKE_PICTURE, 7)]"
    by (simp add: camera_with_two_pending_def pending_entries_def all_PendingResultTypes_def)
  have h: "host_bridge camera_with_two_pending = []"
    by (simp add: camera_with_two_pending_def)
  have empty: "pending_entries Map.empty = []"
    by (simp add: pending_entries_def all_PendingResultTypes_def)
  have "CameraImpl_dtor (all_succeed\<lparr>hr_StopRecord := E_FAIL\<rparr>) camera_with_two_pending
          (Some recording_controller) =
        Inr (camera_with_two_pending
               \<lparr>host_bridge := host_bridge camera_with_two_pending
                  @ map (\<lambda>p. ResultError (snd p) ''Plugin disposed''
                               ''Plugin disposed before request was handled'')
                      (pending_entries (pending_results camera_with_two_pending)),
                pending_results := Map.empty\<rparr>)"
    using dispose_fails_all_pending [OF wf] by blast
  then show ?thesis
    using wf e h empty by auto
qed

end
